theory Spec2Isabelle
  imports Complex_Main "HOL-Library.Char_ord" "HOL-Library.List_Lexorder"
begin

section \<open>Data model\<close>

text \<open>
  Python floats are modelled as real numbers: every statement below is about the
  arithmetic the code writes down, read over the reals. A \<open>datetime\<close> is a point
  on the naive local time line, counted in microseconds (the resolution of Python's
  \<open>datetime\<close>); \<open>hour\<close> is its hour of day.
\<close>

type_synonym datetime = int

definition hour :: "datetime \<Rightarrow> int" where
  "hour t = (t div 3600000000) mod 24"

text \<open>\<open>huawei_router.SignalMetrics\<close>, a dataclass.\<close>

record SignalMetrics =
  timestamp :: datetime
  band :: string
  rsrp :: real
  rsrq :: real
  sinr :: real
  rssi :: real
  cell_id :: string
  plmn :: string

section \<open>Scoring (\<open>data_logger.py\<close>, \<open>ai_agent.py\<close>)\<close>

text \<open>
  \<open>DataLogger._calculate_signal_quality\<close> computes a weighted score and maps it to a
  level. The score is bound to the local variable \<open>quality_score\<close> and the level is
  the \<open>if\<close>/\<open>elif\<close> chain on it; the two steps are named here so that each can be
  stated on its own.
\<close>

definition quality_score :: "'a SignalMetrics_scheme \<Rightarrow> real" where
  "quality_score m =
     (let rsrp_score = max 0 ((rsrp m + 140) / 60);
          rsrq_score = max 0 ((rsrq m + 25) / 15);
          sinr_score = max 0 ((sinr m + 10) / 30)
      in rsrp_score * 0.4 + rsrq_score * 0.3 + sinr_score * 0.3)"

definition quality_level :: "real \<Rightarrow> string" where
  "quality_level q =
     (if q \<ge> 0.8 then ''excellent''
      else if q \<ge> 0.6 then ''good''
      else if q \<ge> 0.4 then ''fair''
      else ''poor'')"

definition calculate_signal_quality :: "'a SignalMetrics_scheme \<Rightarrow> string" where
  "calculate_signal_quality m = quality_level (quality_score m)"

text \<open>
  \<open>AIAutomationAgent._get_signal_quality\<close> repeats the computation, with its own
  copy of the three sub-scores and of the threshold chain.
\<close>

definition get_signal_quality :: "'a SignalMetrics_scheme \<Rightarrow> string" where
  "get_signal_quality m =
     (let rsrp_score = max 0 ((rsrp m + 140) / 60);
          rsrq_score = max 0 ((rsrq m + 25) / 15);
          sinr_score = max 0 ((sinr m + 10) / 30);
          q = rsrp_score * 0.4 + rsrq_score * 0.3 + sinr_score * 0.3
      in if q \<ge> 0.8 then ''excellent''
         else if q \<ge> 0.6 then ''good''
         else if q \<ge> 0.4 then ''fair''
         else ''poor'')"

text \<open>\<open>DataLogger._calculate_bandwidth_score\<close>.\<close>

definition calculate_bandwidth_score :: "'a SignalMetrics_scheme \<Rightarrow> real" where
  "calculate_bandwidth_score m =
     (let sinr_score = max 0 (min 1 ((sinr m + 10) / 30));
          rsrp_score = max 0 (min 1 ((rsrp m + 140) / 60))
      in sinr_score * 0.7 + rsrp_score * 0.3)"

text \<open>\<open>AIAutomationAgent._calculate_current_score\<close>.\<close>

definition calculate_current_score :: "'a SignalMetrics_scheme \<Rightarrow> real" where
  "calculate_current_score m =
     (let sinr_score = max 0 (min 1 ((sinr m + 10) / 30));
          rsrp_score = max 0 (min 1 ((rsrp m + 140) / 60))
      in sinr_score * 0.7 + rsrp_score * 0.3)"

subsection \<open>The specification's formulas\<close>

text \<open>
  These two definitions follow the words of the specification, not the code; the
  theorems below compare the code with them.
\<close>

definition spec_clamp01 :: "real \<Rightarrow> real" where
  "spec_clamp01 x = (if x < 0 then 0 else if x > 1 then 1 else x)"

definition spec_bandwidthScore :: "real \<Rightarrow> real \<Rightarrow> real" where
  "spec_bandwidthScore s r =
     0.7 * spec_clamp01 ((s + 10) / 30) + 0.3 * spec_clamp01 ((r + 140) / 60)"

definition spec_qualityScore :: "real \<Rightarrow> real \<Rightarrow> real \<Rightarrow> real" where
  "spec_qualityScore p q s =
     0.4 * max 0 ((p + 140) / 60) + 0.3 * max 0 ((q + 25) / 15) + 0.3 * max 0 ((s + 10) / 30)"

text \<open>A sample with the given SINR and RSRP, the other fields fixed.\<close>

definition sample :: "datetime \<Rightarrow> string \<Rightarrow> real \<Rightarrow> real \<Rightarrow> SignalMetrics" where
  "sample t b s p =
     \<lparr>timestamp = t, band = b, rsrp = p, rsrq = -10, sinr = s, rssi = -60,
      cell_id = ''1'', plmn = ''60301''\<rparr>"

section \<open>The metric store (\<open>data_logger.py\<close>)\<close>

text \<open>
  One logged record: the sample with the two derived columns. The CSV row and the JSON
  record built by \<open>log_metrics\<close> carry the same ten fields.
\<close>

record log_record = SignalMetrics +
  signal_quality :: string
  bandwidth_score :: real

text \<open>
  The files. The CSV file is absent, or holds a list of rows, with or without the header
  line (\<open>open(..., 'a')\<close> creates a file without one). The JSON file is told apart by
  what \<open>json.load\<close> does on it:
  \<^item> \<open>JsonMissing\<close>: there is no file;
  \<^item> \<open>Unparseable\<close>: \<open>json.load\<close> raises \<open>JSONDecodeError\<close> (text that is not JSON);
  \<^item> \<open>Unreadable\<close>: \<open>json.load\<close> raises another exception, such as
    \<open>UnicodeDecodeError\<close> for a byte that is not valid UTF-8 or \<open>RecursionError\<close> for
    nesting too deep; \<open>except json.JSONDecodeError\<close> does not catch it;
  \<^item> \<open>NotArray\<close>: the file parses to a value that is not a list, so that
    \<open>data.append\<close> raises \<open>AttributeError\<close>;
  \<^item> \<open>Array\<close>: the file parses to an array of records.

  The logger is modelled at its configured paths \<open>lte_metrics.csv\<close> and
  \<open>lte_metrics.json\<close> of \<open>config.LOGGING_CONFIG\<close>, each with its \<open>.backup\<close> sibling.
  Opening, writing and renaming files are taken to succeed: the exceptions that are
  branches of the model are the ones raised by the content of the files and by the
  code's own logic.
\<close>

datatype csv_content = CsvMissing | CsvFile bool "log_record list"

datatype json_content =
  JsonMissing | Unparseable | Unreadable | NotArray | Array "log_record list"

record DataLogger =
  csv_file :: csv_content
  json_file :: json_content
  csv_backup :: csv_content
  json_backup :: json_content

definition init_csv_file :: "DataLogger \<Rightarrow> DataLogger" where
  "init_csv_file st =
     (case csv_file st of
        CsvMissing \<Rightarrow> st\<lparr>csv_file := CsvFile True []\<rparr>
      | CsvFile h rows \<Rightarrow> st)"

text \<open>\<open>DataLogger.__init__\<close> on a directory without log files.\<close>

definition no_files :: DataLogger where
  "no_files = \<lparr>csv_file = CsvMissing, json_file = JsonMissing,
                csv_backup = CsvMissing, json_backup = JsonMissing\<rparr>"

definition new_DataLogger :: DataLogger where
  "new_DataLogger = init_csv_file no_files"

definition csv_row :: "SignalMetrics \<Rightarrow> log_record" where
  "csv_row m =
     \<lparr>timestamp = timestamp m, band = band m, rsrp = rsrp m, rsrq = rsrq m, sinr = sinr m,
      rssi = rssi m, cell_id = cell_id m, plmn = plmn m,
      signal_quality = calculate_signal_quality m,
      bandwidth_score = calculate_bandwidth_score m\<rparr>"

definition json_record :: "SignalMetrics \<Rightarrow> log_record" where
  "json_record m =
     \<lparr>timestamp = timestamp m, band = band m, rsrp = rsrp m, rsrq = rsrq m, sinr = sinr m,
      rssi = rssi m, cell_id = cell_id m, plmn = plmn m,
      signal_quality = calculate_signal_quality m,
      bandwidth_score = calculate_bandwidth_score m\<rparr>"

text \<open>Appending a row with \<open>open(csv_file, 'a')\<close> and \<open>writer.writerow\<close>.\<close>

definition csv_writerow :: "csv_content \<Rightarrow> log_record \<Rightarrow> csv_content" where
  "csv_writerow f row =
     (case f of
        CsvMissing \<Rightarrow> CsvFile False [row]
      | CsvFile h rows \<Rightarrow> CsvFile h (rows @ [row]))"

text \<open>
  \<open>_append_to_json\<close>: an absent file, and a file on which \<open>json.load\<close> raises
  \<open>JSONDecodeError\<close>, start from \<open>data = []\<close>. Any other exception of \<open>json.load\<close>, and
  the \<open>AttributeError\<close> of \<open>data.append\<close> on a value that is not a list, reach the outer
  \<open>except\<close>, which logs the error: the file is not opened for writing and stays as it was.
\<close>

definition append_to_json :: "DataLogger \<Rightarrow> log_record \<Rightarrow> DataLogger" where
  "append_to_json st record =
     (case json_file st of
        JsonMissing \<Rightarrow> st\<lparr>json_file := Array ([] @ [record])\<rparr>
      | Unparseable \<Rightarrow> st\<lparr>json_file := Array ([] @ [record])\<rparr>
      | Unreadable \<Rightarrow> st
      | Array data \<Rightarrow> st\<lparr>json_file := Array (data @ [record])\<rparr>
      | NotArray \<Rightarrow> st)"

text \<open>
  \<open>log_metrics\<close> returns the updated files and the reported outcome. Its \<open>except\<close>
  branch, which reports \<open>False\<close>, is reached only when a file operation raises; an
  exception inside \<open>_append_to_json\<close> never reaches it, since that method catches its own.
\<close>

definition log_metrics :: "DataLogger \<Rightarrow> SignalMetrics \<Rightarrow> DataLogger \<times> bool" where
  "log_metrics st metrics =
     (let st1 = st\<lparr>csv_file := csv_writerow (csv_file st) (csv_row metrics)\<rparr>;
          st2 = append_to_json st1 (json_record metrics)
      in (st2, True))"

definition log_batch_metrics :: "DataLogger \<Rightarrow> SignalMetrics list \<Rightarrow> DataLogger \<times> bool" where
  "log_batch_metrics st metrics_list =
     (fold (\<lambda>metrics s. fst (log_metrics s metrics)) metrics_list st, True)"

subsection \<open>Aggregation, as pandas and numpy do it\<close>

text \<open>
  \<open>np.mean\<close> and the population standard deviation \<open>np.std\<close>; the code calls both on
  non-empty lists only. \<open>pd_std\<close> is the sample standard deviation of pandas
  (\<open>ddof = 1\<close>), undefined (NaN, here \<open>None\<close>) for fewer than two values.
\<close>

definition np_mean :: "real list \<Rightarrow> real" where
  "np_mean xs = sum_list xs / real (length xs)"

definition np_std :: "real list \<Rightarrow> real" where
  "np_std xs = sqrt (np_mean (map (\<lambda>x. \<bar>x - np_mean xs\<bar> ^ 2) xs))"

definition pd_std :: "real list \<Rightarrow> real option" where
  "pd_std xs =
     (if length xs < 2 then None
      else Some (sqrt (sum_list (map (\<lambda>x. (x - np_mean xs) ^ 2) xs) / real (length xs - 1))))"

text \<open>Rounding to two decimals, halves to the even neighbour, as \<open>DataFrame.round(2)\<close>.\<close>

definition rint :: "real \<Rightarrow> int" where
  "rint x =
     (let f = \<lfloor>x\<rfloor>; d = x - of_int f
      in if d < 1/2 then f else if d > 1/2 then f + 1 else if even f then f else f + 1)"

definition round2 :: "real \<Rightarrow> real" where
  "round2 x = of_int (rint (x * 100)) / 100"

subsection \<open>Reading the band column\<close>

text \<open>
  \<open>pd.read_csv\<close> decides what a column holds from all of its tokens: a token that is
  one of its NA markers is a missing value, and the other tokens become numbers when all
  of them are numbers, booleans when all of them are booleans, and stay text otherwise.
  A \<open>label\<close> is what a token of the band column has become.
\<close>

datatype label = Text string | Number real | Flag bool

text \<open>
  The reading itself is a routine of pandas, outside the repository. It is a parameter of
  the model, a \<open>band_reader\<close>: given the tokens of the whole band column of the file and
  one of them, the label read, or \<open>None\<close> for a missing value (NaN).

  So is \<open>pd.to_datetime\<close> on the timestamp column. The texts it is given are the
  \<open>isoformat()\<close> of the samples' timestamps, written without fractional seconds when the
  microseconds are zero; \<open>to_datetime\<close> raises \<open>ValueError\<close> on a column it cannot parse, and
  whether it accepts a column that mixes the two forms depends on the version of pandas.
  The second parameter tells whether it accepts the column of the given timestamps.

  The model assumes nothing about the two; a property that depends on them says so.
\<close>

type_synonym band_reader = "string list \<Rightarrow> string \<Rightarrow> label option"

record pandas =
  read_band_column :: band_reader
  to_datetime_accepts :: "datetime list \<Rightarrow> bool"

definition read_band :: "pandas \<Rightarrow> log_record list \<Rightarrow> log_record \<Rightarrow> label option" where
  "read_band pd df r = read_band_column pd (map band df) (band r)"

text \<open>
  What Python does with a label: its truth value in a condition, and the comparison
  \<open>label != current_band\<close> with the router's band, a string or \<open>None\<close>. A number or a
  boolean of numpy is never equal to a string or to \<open>None\<close>.
\<close>

fun truthy :: "label \<Rightarrow> bool" where
  "truthy (Text s) = (s \<noteq> [])"
| "truthy (Number x) = (x \<noteq> 0)"
| "truthy (Flag b) = b"

fun label_ne :: "label \<Rightarrow> string option \<Rightarrow> bool" where
  "label_ne (Text s) current_band = (Some s \<noteq> current_band)"
| "label_ne (Number x) current_band = True"
| "label_ne (Flag b) current_band = True"

text \<open>
  \<open>unique()\<close> keeps the order of first appearance. \<open>groupby\<close> leaves the rows with a
  missing key out of every group and sorts the group keys; the labels of one column are
  of one kind, and each kind is sorted by its own order.
\<close>

definition unique :: "'a list \<Rightarrow> 'a list" where
  "unique xs = rev (remdups (rev xs))"

definition sort_labels :: "label list \<Rightarrow> label list" where
  "sort_labels ls =
     map Text (sort (concat (map (\<lambda>l. case l of Text s \<Rightarrow> [s] | _ \<Rightarrow> []) ls)))
     @ map Number (sort (concat (map (\<lambda>l. case l of Number x \<Rightarrow> [x] | _ \<Rightarrow> []) ls)))
     @ map Flag (sort (concat (map (\<lambda>l. case l of Flag b \<Rightarrow> [b] | _ \<Rightarrow> []) ls)))"

definition group_keys :: "(log_record \<Rightarrow> label option) \<Rightarrow> log_record list \<Rightarrow> label list" where
  "group_keys lab rows =
     sort_labels (remdups (concat (map (\<lambda>r. case lab r of None \<Rightarrow> [] | Some l \<Rightarrow> [l]) rows)))"

definition group_of :: "(log_record \<Rightarrow> label option) \<Rightarrow> log_record list \<Rightarrow> label \<Rightarrow> log_record list" where
  "group_of lab rows l = filter (\<lambda>r. lab r = Some l) rows"

definition groupby_mean ::
  "(log_record \<Rightarrow> label option) \<Rightarrow> (log_record \<Rightarrow> real) \<Rightarrow> log_record list \<Rightarrow> (label \<times> real) list" where
  "groupby_mean lab col rows =
     map (\<lambda>l. (l, np_mean (map col (group_of lab rows l)))) (group_keys lab rows)"

text \<open>
  \<open>idxmax\<close> and \<open>idxmin\<close> return the label of the first extreme value; on an empty
  series they raise \<open>ValueError\<close> (\<open>None\<close>).
\<close>

fun first_max :: "'k \<times> real \<Rightarrow> ('k \<times> real) list \<Rightarrow> 'k" where
  "first_max (k, v) [] = k"
| "first_max (k, v) ((k', v') # kvs) =
     (if v' > v then first_max (k', v') kvs else first_max (k, v) kvs)"

fun first_min :: "'k \<times> real \<Rightarrow> ('k \<times> real) list \<Rightarrow> 'k" where
  "first_min (k, v) [] = k"
| "first_min (k, v) ((k', v') # kvs) =
     (if v' < v then first_min (k', v') kvs else first_min (k, v) kvs)"

definition idxmax :: "('k \<times> real) list \<Rightarrow> 'k option" where
  "idxmax kvs = (case kvs of [] \<Rightarrow> None | kv # rest \<Rightarrow> Some (first_max kv rest))"

definition idxmin :: "('k \<times> real) list \<Rightarrow> 'k option" where
  "idxmin kvs = (case kvs of [] \<Rightarrow> None | kv # rest \<Rightarrow> Some (first_min kv rest))"

text \<open>Missing values are skipped by \<open>idxmin\<close>; a series of missing values only has no minimum.\<close>

definition dropna :: "('k \<times> real option) list \<Rightarrow> ('k \<times> real) list" where
  "dropna kvs = concat (map (\<lambda>(k, v). case v of None \<Rightarrow> [] | Some x \<Rightarrow> [(k, x)]) kvs)"

subsection \<open>\<open>get_metrics_summary\<close>\<close>

record average_metrics =
  mean_rsrp :: real
  mean_rsrq :: real
  mean_sinr :: real
  mean_rssi :: real
  mean_bandwidth_score :: real

record MetricsSummary =
  total_records :: nat
  bands_tested :: "label option list"
  average_metrics :: average_metrics
  signal_quality_distribution :: "string \<rightharpoonup> nat"
  best_performing_band :: label
  worst_performing_band :: label

definition Timedelta :: "int \<Rightarrow> int" where
  "Timedelta hours = hours * 3600000000"

definition recent_data :: "log_record list \<Rightarrow> datetime \<Rightarrow> int \<Rightarrow> log_record list" where
  "recent_data df now hours = filter (\<lambda>r. timestamp r \<ge> now - Timedelta hours) df"

definition value_counts :: "string list \<Rightarrow> (string \<rightharpoonup> nat)" where
  "value_counts qs = map_of (map (\<lambda>q. (q, count_list qs q)) (unique qs))"

text \<open>
  The whole file is read first, so the labels are those of the whole band column, and
  the rows are filtered by time afterwards. The result is \<open>None\<close> for the empty
  dictionary \<open>{}\<close>: no recent row, or an exception (\<open>read_csv\<close> on an absent file, the
  \<open>timestamp\<close> column of a file without header line, \<open>to_datetime\<close> on a column it does
  not accept, \<open>idxmax\<close> on the empty series of group means when the band of every recent
  row is a missing value). The \<open>time_range\<close> text of the dictionary is left out.
\<close>

definition get_metrics_summary ::
  "pandas \<Rightarrow> DataLogger \<Rightarrow> datetime \<Rightarrow> int \<Rightarrow> MetricsSummary option" where
  "get_metrics_summary pd st now hours =
     (case csv_file st of
        CsvMissing \<Rightarrow> None
      | CsvFile False rows \<Rightarrow> None
      | CsvFile True df \<Rightarrow>
          (let recent = recent_data df now hours
           in if \<not> to_datetime_accepts pd (map timestamp df) then None
              else if recent = [] then None
              else
                (case (idxmax (groupby_mean (read_band pd df) bandwidth_score recent),
                       idxmin (groupby_mean (read_band pd df) bandwidth_score recent)) of
                   (Some best, Some worst) \<Rightarrow>
                     Some \<lparr>total_records = length recent,
                           bands_tested = unique (map (read_band pd df) recent),
                           average_metrics =
                             \<lparr>mean_rsrp = np_mean (map rsrp recent),
                              mean_rsrq = np_mean (map rsrq recent),
                              mean_sinr = np_mean (map sinr recent),
                              mean_rssi = np_mean (map rssi recent),
                              mean_bandwidth_score = np_mean (map bandwidth_score recent)\<rparr>,
                           signal_quality_distribution = value_counts (map signal_quality recent),
                           best_performing_band = best,
                           worst_performing_band = worst\<rparr>
                 | _ \<Rightarrow> None)))"

subsection \<open>\<open>export_band_comparison\<close>\<close>

text \<open>
  The per-band table, with the two columns the agent reads: \<open>sinr_mean\<close> and
  \<open>bandwidth_score_std\<close>, over all rows of the file and rounded to two decimals.
  \<open>None\<close> is the \<open>None\<close> returned after an exception (\<open>read_csv\<close>, the \<open>timestamp\<close>
  column, \<open>to_datetime\<close>).
\<close>

record band_stats =
  sinr_mean :: real
  bandwidth_score_std :: "real option"

definition export_band_comparison :: "pandas \<Rightarrow> DataLogger \<Rightarrow> (label \<times> band_stats) list option" where
  "export_band_comparison pd st =
     (case csv_file st of
        CsvMissing \<Rightarrow> None
      | CsvFile False rows \<Rightarrow> None
      | CsvFile True df \<Rightarrow>
          if \<not> to_datetime_accepts pd (map timestamp df) then None
          else
          Some (map (\<lambda>l. (l, \<lparr>sinr_mean =
                                    round2 (np_mean (map sinr (group_of (read_band pd df) df l))),
                                bandwidth_score_std =
                                  map_option round2
                                    (pd_std (map bandwidth_score (group_of (read_band pd df) df l)))\<rparr>))
                    (group_keys (read_band pd df) df)))"

subsection \<open>\<open>cleanup_old_logs\<close>\<close>


section \<open>The agent (\<open>ai_agent.py\<close>, \<open>config.py\<close>)\<close>

record period =
  period_start :: string
  period_end :: string

record config =
  auto_switch_threshold :: real
  peak_hours :: "(string \<times> period) list"

text \<open>\<open>config.MONITORING_CONFIG\<close>, the two entries the agent reads.\<close>

definition MONITORING_CONFIG :: config where
  "MONITORING_CONFIG =
     \<lparr>auto_switch_threshold = 0.8,
      peak_hours = [(''morning'', \<lparr>period_start = ''07:00'', period_end = ''09:00''\<rparr>),
                    (''evening'', \<lparr>period_start = ''17:00'', period_end = ''19:00''\<rparr>)]\<rparr>"

text \<open>
  What the agent does to the outside is recorded as a list of events: a call of
  \<open>_smart_band_switch\<close>, and a call of \<open>router.set_lte_band\<close> with its argument, the
  label taken from the data frame.
\<close>

datatype event = CallSmartBandSwitch | RouterSetLteBand label

datatype py_error = AttributeError | ValueError

record BandPerformance =
  bp_band :: string
  avg_rsrp :: real
  avg_rsrq :: real
  avg_sinr :: real
  avg_bandwidth_score :: real
  stability_score :: real
  peak_performance :: real
  off_peak_performance :: real

definition bandwidth_scores :: "SignalMetrics list \<Rightarrow> real list" where
  "bandwidth_scores metrics_list =
     map (\<lambda>metrics.
            let sinr_score = max 0 (min 1 ((sinr metrics + 10) / 30));
                rsrp_score = max 0 (min 1 ((rsrp metrics + 140) / 60))
            in sinr_score * 0.7 + rsrp_score * 0.3) metrics_list"

definition analyze_band_performance :: "string \<Rightarrow> SignalMetrics list \<Rightarrow> BandPerformance" where
  "analyze_band_performance b metrics_list =
     (if metrics_list = [] then
        \<lparr>bp_band = b, avg_rsrp = 0, avg_rsrq = 0, avg_sinr = 0, avg_bandwidth_score = 0,
         stability_score = 0, peak_performance = 0, off_peak_performance = 0\<rparr>
      else
        (let peak_hours = [7, 8, 9, 17, 18, 19];
             peak_metrics = filter (\<lambda>m. hour (timestamp m) \<in> set peak_hours) metrics_list;
             off_peak_metrics = filter (\<lambda>m. hour (timestamp m) \<notin> set peak_hours) metrics_list
         in \<lparr>bp_band = b,
             avg_rsrp = np_mean (map rsrp metrics_list),
             avg_rsrq = np_mean (map rsrq metrics_list),
             avg_sinr = np_mean (map sinr metrics_list),
             avg_bandwidth_score = np_mean (bandwidth_scores metrics_list),
             stability_score = 1 - np_std (bandwidth_scores metrics_list),
             peak_performance =
               (if peak_metrics \<noteq> [] then np_mean (map sinr peak_metrics) else 0),
             off_peak_performance =
               (if off_peak_metrics \<noteq> [] then np_mean (map sinr off_peak_metrics) else 0)\<rparr>))"

text \<open>
  \<open>_smart_band_switch\<close> asks the router twice: the reply \<open>r1\<close> decides the conditional
  expression and, when it is a sample, the band is read from a second reply \<open>r2\<close>;
  \<open>None.band\<close> raises \<open>AttributeError\<close>.
\<close>

definition current_band_of ::
  "SignalMetrics option \<Rightarrow> SignalMetrics option \<Rightarrow> py_error + string option" where
  "current_band_of r1 r2 =
     (case r1 of
        None \<Rightarrow> Inr None
      | Some m1 \<Rightarrow> (case r2 of None \<Rightarrow> Inl AttributeError | Some m2 \<Rightarrow> Inr (Some (band m2))))"

definition smart_band_switch ::
  "pandas \<Rightarrow> DataLogger \<Rightarrow> datetime \<Rightarrow> SignalMetrics option \<Rightarrow> SignalMetrics option
     \<Rightarrow> event list" where
  "smart_band_switch pd st now r1 r2 =
     (case get_metrics_summary pd st now 6 of
        None \<Rightarrow> []
      | Some summary \<Rightarrow>
          (let best_band = best_performing_band summary
           in case current_band_of r1 r2 of
                Inl e \<Rightarrow> []
              | Inr current_band \<Rightarrow>
                  if truthy best_band \<and> label_ne best_band current_band
                  then [RouterSetLteBand best_band] else []))"

text \<open>
  \<open>_check_band_switch\<close>: \<open>now1\<close> is the clock at its one-hour summary, \<open>now6\<close> the
  clock at the six-hour summary of \<open>_smart_band_switch\<close>.
\<close>

definition check_band_switch ::
  "config \<Rightarrow> pandas \<Rightarrow> DataLogger \<Rightarrow> datetime \<Rightarrow> datetime
     \<Rightarrow> SignalMetrics option \<Rightarrow> SignalMetrics option \<Rightarrow> SignalMetrics \<Rightarrow> event list" where
  "check_band_switch cfg pd st now1 now6 r1 r2 current_metrics =
     (case get_metrics_summary pd st now1 1 of
        None \<Rightarrow> []
      | Some summary \<Rightarrow>
          (let current_score = calculate_current_score current_metrics;
               historical_avg = mean_bandwidth_score (average_metrics summary);
               degradation_threshold = auto_switch_threshold cfg
           in if current_score < historical_avg * degradation_threshold
              then CallSmartBandSwitch # smart_band_switch pd st now6 r1 r2
              else []))"

text \<open>
  One round of \<open>monitor_loop\<close> in \<open>start_continuous_monitoring\<close> for the router's reply
  \<open>reply\<close>: log the sample, then check for a switch when auto-switch is enabled.
\<close>

definition monitor_round ::
  "config \<Rightarrow> pandas \<Rightarrow> bool \<Rightarrow> DataLogger \<Rightarrow> SignalMetrics option \<Rightarrow> datetime \<Rightarrow> datetime
     \<Rightarrow> SignalMetrics option \<Rightarrow> SignalMetrics option \<Rightarrow> DataLogger \<times> event list" where
  "monitor_round cfg pd auto_switch_enabled st reply now1 now6 r1 r2 =
     (case reply of
        None \<Rightarrow> (st, [])
      | Some metrics \<Rightarrow>
          (let st' = fst (log_metrics st metrics)
           in (st', if auto_switch_enabled
                    then check_band_switch cfg pd st' now1 now6 r1 r2 metrics
                    else [])))"

subsection \<open>Peak-hour optimisation\<close>

text \<open>
  \<open>int(text.split(':')[0])\<close> for a text of decimal digits before the first colon;
  any other text is a \<open>ValueError\<close>.
\<close>

definition split_colon_0 :: "string \<Rightarrow> string" where
  "split_colon_0 s = takeWhile (\<lambda>c. c \<noteq> CHR '':'') s"

definition py_int :: "string \<Rightarrow> int option" where
  "py_int s =
     (if s \<noteq> [] \<and> list_all (\<lambda>c. c \<in> set ''0123456789'') s
      then Some (foldl (\<lambda>n c. 10 * n + (of_char c - 48)) 0 s)
      else None)"

fun is_peak_hour :: "(string \<times> period) list \<Rightarrow> int \<Rightarrow> py_error + bool" where
  "is_peak_hour [] current_hour = Inr False"
| "is_peak_hour ((name, p) # periods) current_hour =
     (case py_int (split_colon_0 (period_start p)) of
        None \<Rightarrow> Inl ValueError
      | Some start_hour \<Rightarrow>
          (case py_int (split_colon_0 (period_end p)) of
             None \<Rightarrow> Inl ValueError
           | Some end_hour \<Rightarrow>
               if start_hour \<le> current_hour \<and> current_hour \<le> end_hour then Inr True
               else is_peak_hour periods current_hour))"

definition switch_to_peak_optimized_band ::
  "pandas \<Rightarrow> DataLogger \<Rightarrow> SignalMetrics option \<Rightarrow> event list" where
  "switch_to_peak_optimized_band pd st current_metrics =
     (case export_band_comparison pd st of
        None \<Rightarrow> []
      | Some band_comparison \<Rightarrow>
          if band_comparison = [] then []
          else
            (case idxmax (map (\<lambda>(b, s). (b, sinr_mean s)) band_comparison) of
               None \<Rightarrow> []
             | Some best_peak_band \<Rightarrow>
                 (let current_band = map_option band current_metrics
                  in if truthy best_peak_band \<and> label_ne best_peak_band current_band
                     then [RouterSetLteBand best_peak_band] else [])))"

definition switch_to_stability_optimized_band ::
  "pandas \<Rightarrow> DataLogger \<Rightarrow> SignalMetrics option \<Rightarrow> event list" where
  "switch_to_stability_optimized_band pd st current_metrics =
     (case export_band_comparison pd st of
        None \<Rightarrow> []
      | Some band_comparison \<Rightarrow>
          if band_comparison = [] then []
          else
            (case idxmin (dropna (map (\<lambda>(b, s). (b, bandwidth_score_std s)) band_comparison)) of
               None \<Rightarrow> []
             | Some best_stable_band \<Rightarrow>
                 (let current_band = map_option band current_metrics
                  in if truthy best_stable_band \<and> label_ne best_stable_band current_band
                     then [RouterSetLteBand best_stable_band] else [])))"

definition optimize_for_peak_hours ::
  "config \<Rightarrow> pandas \<Rightarrow> DataLogger \<Rightarrow> datetime \<Rightarrow> SignalMetrics option \<Rightarrow> event list" where
  "optimize_for_peak_hours cfg pd st now current_metrics =
     (let current_hour = hour now
      in case is_peak_hour (peak_hours cfg) current_hour of
           Inl e \<Rightarrow> []
         | Inr True \<Rightarrow> switch_to_peak_optimized_band pd st current_metrics
         | Inr False \<Rightarrow> switch_to_stability_optimized_band pd st current_metrics)"

subsection \<open>The specification's peak-hour criterion\<close>

text \<open>
  This definition follows the words of the specification: the mean SINR of a band over
  its samples taken in the peak hours 7, 8, 9, 17, 18 and 19.
\<close>

definition spec_peak_hour_sinr :: "log_record list \<Rightarrow> string \<Rightarrow> real" where
  "spec_peak_hour_sinr rows b =
     np_mean (map sinr (filter (\<lambda>r. hour (timestamp r) \<in> {7, 8, 9, 17, 18, 19})
                          (filter (\<lambda>r. band r = b) rows)))"

section \<open>Notions used to state the properties\<close>




text \<open>
  A JSON file that is not parseable as JSON, in the words of the claims: loading it
  fails, with \<open>JSONDecodeError\<close> or otherwise.
\<close>

definition spec_not_parseable :: "json_content \<Rightarrow> bool" where
  "spec_not_parseable f = (f = Unparseable \<or> f = Unreadable)"

text \<open>
  The rows of the window \<open>[now - window, now]\<close>, in the words of the specification; an
  hour is 3600000000 microseconds.
\<close>

definition spec_window :: "log_record list \<Rightarrow> datetime \<Rightarrow> int \<Rightarrow> log_record list" where
  "spec_window rows now hours =
     filter (\<lambda>r. now - hours * 3600000000 \<le> timestamp r \<and> timestamp r \<le> now) rows"

text \<open>The mean bandwidth score of the rows read as one band.\<close>

definition band_mean :: "(log_record \<Rightarrow> label option) \<Rightarrow> log_record list \<Rightarrow> label \<Rightarrow> real" where
  "band_mean lab rows l = np_mean (map bandwidth_score (filter (\<lambda>r. lab r = Some l) rows))"

text \<open>
  A reader for examples. It is how pandas reads a column that stays text, which is every
  column with a token that is neither an NA marker, nor a number, nor a boolean: the
  default NA markers of \<open>read_csv\<close> are missing values and every other token is the
  text that was written.
\<close>

definition default_na_values :: "string list" where
  "default_na_values =
     [[], ''#N/A'', ''#N/A N/A'', ''#NA'', ''-1.#IND'', ''-1.#QNAN'', ''-NaN'', ''-nan'',
      ''1.#IND'', ''1.#QNAN'', ''<NA>'', ''N/A'', ''NA'', ''NULL'', ''NaN'', ''None'', ''n/a'',
      ''nan'', ''null'']"

definition text_reader :: band_reader where
  "text_reader column token =
     (if token \<in> set default_na_values then None else Some (Text token))"

text \<open>
  The instance of \<open>to_datetime\<close> used in the examples accepts a column when the microseconds
  are zero in all its timestamps, or in none of them, so that all the texts have one form.
\<close>

definition one_format :: "datetime list \<Rightarrow> bool" where
  "one_format ts =
     (list_all (\<lambda>t. t mod 1000000 = 0) ts \<or> list_all (\<lambda>t. 0 < t mod 1000000) ts)"

definition example_pandas :: pandas where
  "example_pandas = \<lparr>read_band_column = text_reader, to_datetime_accepts = one_format\<rparr>"

text \<open>The population standard deviation, in the words of the specification.\<close>

definition spec_population_std :: "real list \<Rightarrow> real" where
  "spec_population_std xs =
     sqrt ((\<Sum>x\<leftarrow>xs. (x - sum_list xs / real (length xs)) ^ 2) / real (length xs))"



section \<open>Properties of the scores\<close>

lemma clamp_eq_spec: "max 0 (min 1 x) = spec_clamp01 x"
  by (simp add: spec_clamp01_def max_def min_def)

lemma spec_clamp01_range: "0 \<le> spec_clamp01 x \<and> spec_clamp01 x \<le> 1"
  by (simp add: spec_clamp01_def)

lemma spec_clamp01_mono: "x \<le> y \<Longrightarrow> spec_clamp01 x \<le> spec_clamp01 y"
  by (simp add: spec_clamp01_def)

lemma bandwidth_score_eq_spec:
  "calculate_bandwidth_score m = spec_bandwidthScore (sinr m) (rsrp m)"
  by (simp add: calculate_bandwidth_score_def spec_bandwidthScore_def clamp_eq_spec)

lemma current_score_eq:
  "calculate_current_score m = calculate_bandwidth_score m"
  by (simp add: calculate_current_score_def calculate_bandwidth_score_def)

lemma spec_bandwidthScore_range:
  "0 \<le> spec_bandwidthScore s r \<and> spec_bandwidthScore s r \<le> 1"
proof -
  have a: "0 \<le> spec_clamp01 ((s + 10) / 30) \<and> spec_clamp01 ((s + 10) / 30) \<le> 1"
    by (rule spec_clamp01_range)
  have b: "0 \<le> spec_clamp01 ((r + 140) / 60) \<and> spec_clamp01 ((r + 140) / 60) \<le> 1"
    by (rule spec_clamp01_range)
  from a b show ?thesis
    unfolding spec_bandwidthScore_def by linarith
qed

lemma spec_bandwidthScore_mono:
  assumes "s \<le> s'" and "r \<le> r'"
  shows "spec_bandwidthScore s r \<le> spec_bandwidthScore s' r'"
proof -
  have a: "spec_clamp01 ((s + 10) / 30) \<le> spec_clamp01 ((s' + 10) / 30)"
    using assms(1) by (intro spec_clamp01_mono) (simp add: divide_right_mono)
  have b: "spec_clamp01 ((r + 140) / 60) \<le> spec_clamp01 ((r' + 140) / 60)"
    using assms(2) by (intro spec_clamp01_mono) (simp add: divide_right_mono)
  from a b show ?thesis
    unfolding spec_bandwidthScore_def by linarith
qed

lemma bandwidth_score_range:
  "0 \<le> calculate_bandwidth_score m \<and> calculate_bandwidth_score m \<le> 1"
  by (simp only: bandwidth_score_eq_spec spec_bandwidthScore_range)

text \<open>
  Claim C2. For all real SINR and RSRP, both copies of the bandwidth score in the code
  (\<open>_calculate_bandwidth_score\<close> and \<open>_calculate_current_score\<close>) equal
  \<open>0.7 * clamp01((sinr+10)/30) + 0.3 * clamp01((rsrp+140)/60)\<close>; the result lies in
  \<open>[0,1]\<close>; it is monotonically non-decreasing in SINR and in RSRP; and the score at
  \<open>(20, -60)\<close> equals the score at \<open>(20, -50)\<close>.
\<close>

theorem bandwidth_score_formula_range_mono:
  "calculate_bandwidth_score m = spec_bandwidthScore (sinr m) (rsrp m)
   \<and> calculate_current_score m = spec_bandwidthScore (sinr m) (rsrp m)
   \<and> 0 \<le> calculate_bandwidth_score m \<and> calculate_bandwidth_score m \<le> 1
   \<and> (sinr m \<le> sinr m' \<and> rsrp m \<le> rsrp m'
        \<longrightarrow> calculate_bandwidth_score m \<le> calculate_bandwidth_score m')
   \<and> calculate_bandwidth_score (sample t b 20 (-60))
       = calculate_bandwidth_score (sample t b 20 (-50))"
proof -
  have e: "calculate_bandwidth_score (sample t b 20 (-60))
             = calculate_bandwidth_score (sample t b 20 (-50))"
    by (simp add: calculate_bandwidth_score_def sample_def)
  show ?thesis
    using bandwidth_score_eq_spec [of m] bandwidth_score_eq_spec [of m']
      current_score_eq [of m] bandwidth_score_range [of m]
      spec_bandwidthScore_mono [of "sinr m" "sinr m'" "rsrp m" "rsrp m'"] e
    by simp
qed

theorem bandwidth_score_formula_range_mono_witness:
  "sinr (sample 0 ''B3'' 5 (-100)) \<le> sinr (sample 0 ''B3'' 15 (-85))
   \<and> rsrp (sample 0 ''B3'' 5 (-100)) \<le> rsrp (sample 0 ''B3'' 15 (-85))
   \<and> calculate_bandwidth_score (sample 0 ''B3'' 5 (-100))
       \<le> calculate_bandwidth_score (sample 0 ''B3'' 15 (-85))
   \<and> calculate_bandwidth_score (sample 0 ''B3'' 5 (-100)) = 11 / 20"
proof -
  have v: "calculate_bandwidth_score (sample 0 ''B3'' 5 (-100)) = 11 / 20"
    by (simp add: calculate_bandwidth_score_def sample_def)
  have h: "sinr (sample 0 ''B3'' 5 (-100)) \<le> sinr (sample 0 ''B3'' 15 (-85))
           \<and> rsrp (sample 0 ''B3'' 5 (-100)) \<le> rsrp (sample 0 ''B3'' 15 (-85))"
    by (simp add: sample_def)
  from h v show ?thesis
    using bandwidth_score_formula_range_mono
      [of "sample 0 ''B3'' 5 (-100)" "sample 0 ''B3'' 15 (-85)" 0 "''B3''"]
    by blast
qed

lemma quality_score_eq_spec:
  "quality_score m = spec_qualityScore (rsrp m) (rsrq m) (sinr m)"
  by (simp add: quality_score_def spec_qualityScore_def)

lemma get_signal_quality_eq:
  "get_signal_quality m = quality_level (quality_score m)"
  by (simp add: get_signal_quality_def quality_level_def quality_score_def Let_def)

lemma quality_level_cases:
  "(quality_level q = ''excellent'' \<longleftrightarrow> q \<ge> 0.8)
   \<and> (quality_level q = ''good'' \<longleftrightarrow> 0.6 \<le> q \<and> q < 0.8)
   \<and> (quality_level q = ''fair'' \<longleftrightarrow> 0.4 \<le> q \<and> q < 0.6)
   \<and> (quality_level q = ''poor'' \<longleftrightarrow> q < 0.4)"
  by (auto simp: quality_level_def)

text \<open>
  Claim C5. For all RSRP, RSRQ and SINR the quality score of the code is
  \<open>0.4*max(0,(rsrp+140)/60) + 0.3*max(0,(rsrq+25)/15) + 0.3*max(0,(sinr+10)/30)\<close>,
  clamped from below only (a strong sample scores above 1), and both copies of the
  classification return excellent iff the score is at least 0.8, good iff it is in
  \<open>[0.6, 0.8)\<close>, fair iff it is in \<open>[0.4, 0.6)\<close> and poor otherwise; a score of exactly
  0.8 is excellent, 0.7999 is good and 0 is poor.
\<close>

theorem quality_score_and_levels:
  "quality_score m = spec_qualityScore (rsrp m) (rsrq m) (sinr m)
   \<and> calculate_signal_quality m = quality_level (quality_score m)
   \<and> get_signal_quality m = quality_level (quality_score m)
   \<and> quality_score (sample t b 50 (-20)) > 1
   \<and> (quality_level q = ''excellent'' \<longleftrightarrow> q \<ge> 0.8)
   \<and> (quality_level q = ''good'' \<longleftrightarrow> 0.6 \<le> q \<and> q < 0.8)
   \<and> (quality_level q = ''fair'' \<longleftrightarrow> 0.4 \<le> q \<and> q < 0.6)
   \<and> (quality_level q = ''poor'' \<longleftrightarrow> q < 0.4)
   \<and> quality_level 0.8 = ''excellent''
   \<and> quality_level 0.7999 = ''good''
   \<and> quality_level 0.0 = ''poor''"
proof -
  have big: "quality_score (sample t b 50 (-20)) > 1"
    by (simp add: quality_score_def sample_def)
  have pts: "quality_level 0.8 = ''excellent'' \<and> quality_level 0.7999 = ''good''
             \<and> quality_level 0.0 = ''poor''"
    by (simp add: quality_level_def)
  show ?thesis
    using quality_score_eq_spec [of m] get_signal_quality_eq [of m]
      quality_level_cases [of q] big pts
    by (simp add: calculate_signal_quality_def)
qed

theorem quality_score_and_levels_witness:
  "quality_score (sample 0 ''B3'' 0 (-80)) = 0.8
   \<and> calculate_signal_quality (sample 0 ''B3'' 0 (-80)) = ''excellent''
   \<and> get_signal_quality (sample 0 ''B3'' 0 (-80)) = ''excellent''"
proof -
  have v: "quality_score (sample 0 ''B3'' 0 (-80)) = 0.8"
    by (simp add: quality_score_def sample_def)
  show ?thesis
    using quality_score_and_levels [of "sample 0 ''B3'' 0 (-80)" 0 "''B3''" "0.8"] v
    by simp
qed

section \<open>Properties of the metric store\<close>


lemma new_DataLogger_csv: "csv_file new_DataLogger = CsvFile True []"
  by (simp add: new_DataLogger_def init_csv_file_def no_files_def)


lemma log_metrics_csv:
  "csv_file (fst (log_metrics st m)) = csv_writerow (csv_file st) (csv_row m)"
  by (cases "json_file st") (simp_all add: log_metrics_def append_to_json_def Let_def)

lemma log_metrics_json:
  "json_file (fst (log_metrics st m)) =
     (case json_file st of
        JsonMissing \<Rightarrow> Array [json_record m]
      | Unparseable \<Rightarrow> Array [json_record m]
      | Unreadable \<Rightarrow> Unreadable
      | NotArray \<Rightarrow> NotArray
      | Array data \<Rightarrow> Array (data @ [json_record m]))"
  by (cases "json_file st") (simp_all add: log_metrics_def append_to_json_def Let_def)

lemma log_metrics_reports: "snd (log_metrics st m) = True"
  by (simp add: log_metrics_def Let_def)

text \<open>
  Claim C10, as stated, fails: not every file that is not parseable is emptied. In a
  mirror of one record a byte is corrupted into one that is not valid UTF-8, so that
  \<open>json.load\<close> raises \<open>UnicodeDecodeError\<close>. The next append reports success, and the
  file is what it was: it has not become the array of the new record.
\<close>

theorem unreadable_json_kept_counterexample:
  "spec_not_parseable
     (json_file (new_DataLogger\<lparr>csv_file := CsvFile True [csv_row (sample 0 ''B3'' 15 (-85))],
                                json_file := Unreadable\<rparr>))
   \<and> snd (log_metrics (new_DataLogger\<lparr>csv_file := CsvFile True [csv_row (sample 0 ''B3'' 15 (-85))],
                                      json_file := Unreadable\<rparr>) (sample 1 ''B7'' 5 (-100))) = True
   \<and> json_file (fst (log_metrics (new_DataLogger\<lparr>csv_file := CsvFile True [csv_row (sample 0 ''B3'' 15 (-85))],
                                      json_file := Unreadable\<rparr>) (sample 1 ''B7'' 5 (-100))))
       = Unreadable
   \<and> json_file (fst (log_metrics (new_DataLogger\<lparr>csv_file := CsvFile True [csv_row (sample 0 ''B3'' 15 (-85))],
                                      json_file := Unreadable\<rparr>) (sample 1 ''B7'' 5 (-100))))
       \<noteq> Array [json_record (sample 1 ''B7'' 5 (-100))]"
  by (simp add: spec_not_parseable_def log_metrics_json log_metrics_reports)

text \<open>
  Claim C10, amended. Whenever \<open>json.load\<close> raises \<open>JSONDecodeError\<close> on the JSON log
  file, the next append starts from the empty list, so the file afterwards holds the new
  record only and every record persisted before is gone. Whenever \<open>json.load\<close> raises
  another exception on it, the next append leaves the file as it was: nothing is
  discarded and the new record is not mirrored. In both cases the CSV row is written and
  the append reports success.
\<close>

theorem json_load_failure_effect:
  "(json_file st = Unparseable \<longrightarrow>
      json_file (fst (log_metrics st m)) = Array [json_record m])
   \<and> (json_file st = Unreadable \<longrightarrow>
      json_file (fst (log_metrics st m)) = Unreadable)
   \<and> csv_file (fst (log_metrics st m)) = csv_writerow (csv_file st) (csv_row m)
   \<and> snd (log_metrics st m) = True"
  by (simp add: log_metrics_json log_metrics_csv log_metrics_reports)

theorem json_load_failure_effect_witness:
  "json_file (new_DataLogger\<lparr>csv_file := CsvFile True [csv_row (sample 0 ''B3'' 15 (-85))],
                             json_file := Unparseable\<rparr>) = Unparseable
   \<and> json_file (fst (log_metrics (new_DataLogger\<lparr>csv_file := CsvFile True [csv_row (sample 0 ''B3'' 15 (-85))],
                                      json_file := Unparseable\<rparr>) (sample 1 ''B7'' 5 (-100))))
       = Array [json_record (sample 1 ''B7'' 5 (-100))]
   \<and> json_file (new_DataLogger\<lparr>csv_file := CsvFile True [csv_row (sample 0 ''B3'' 15 (-85))],
                             json_file := Unreadable\<rparr>) = Unreadable
   \<and> json_file (fst (log_metrics (new_DataLogger\<lparr>csv_file := CsvFile True [csv_row (sample 0 ''B3'' 15 (-85))],
                                      json_file := Unreadable\<rparr>) (sample 1 ''B7'' 5 (-100))))
       = Unreadable
   \<and> csv_file (fst (log_metrics (new_DataLogger\<lparr>csv_file := CsvFile True [csv_row (sample 0 ''B3'' 15 (-85))],
                                      json_file := Unparseable\<rparr>) (sample 1 ''B7'' 5 (-100))))
       = CsvFile True [csv_row (sample 0 ''B3'' 15 (-85)), csv_row (sample 1 ''B7'' 5 (-100))]"
  using json_load_failure_effect
      [where st = "new_DataLogger\<lparr>csv_file := CsvFile True [csv_row (sample 0 ''B3'' 15 (-85))],
                                   json_file := Unparseable\<rparr>"
         and m = "sample 1 ''B7'' 5 (-100)"]
    json_load_failure_effect
      [where st = "new_DataLogger\<lparr>csv_file := CsvFile True [csv_row (sample 0 ''B3'' 15 (-85))],
                                   json_file := Unreadable\<rparr>"
         and m = "sample 1 ''B7'' 5 (-100)"]
  by (simp add: csv_writerow_def)




subsection \<open>The summary of a time window\<close>

lemma texts_of_set:
  "set (concat (map (\<lambda>l. case l of Text s \<Rightarrow> [s] | _ \<Rightarrow> []) ls)) = {s. Text s \<in> set ls}"
  by (induction ls) (auto split: label.splits)

lemma numbers_of_set:
  "set (concat (map (\<lambda>l. case l of Number x \<Rightarrow> [x] | _ \<Rightarrow> []) ls)) = {x. Number x \<in> set ls}"
  by (induction ls) (auto split: label.splits)

lemma flags_of_set:
  "set (concat (map (\<lambda>l. case l of Flag b \<Rightarrow> [b] | _ \<Rightarrow> []) ls)) = {b. Flag b \<in> set ls}"
  by (induction ls) (auto split: label.splits)

lemma set_sort_labels: "set (sort_labels ls) = set ls"
proof -
  have "set (sort_labels ls)
          = Text ` {s. Text s \<in> set ls} \<union> Number ` {x. Number x \<in> set ls}
            \<union> Flag ` {b. Flag b \<in> set ls}"
    unfolding sort_labels_def
    by (simp only: set_append set_map set_sort texts_of_set numbers_of_set flags_of_set Un_assoc)
  also have "\<dots> = set ls"
  proof
    show "Text ` {s. Text s \<in> set ls} \<union> Number ` {x. Number x \<in> set ls}
            \<union> Flag ` {b. Flag b \<in> set ls} \<subseteq> set ls"
      by blast
    show "set ls \<subseteq> Text ` {s. Text s \<in> set ls} \<union> Number ` {x. Number x \<in> set ls}
            \<union> Flag ` {b. Flag b \<in> set ls}"
    proof
      fix l assume h: "l \<in> set ls"
      show "l \<in> Text ` {s. Text s \<in> set ls} \<union> Number ` {x. Number x \<in> set ls}
            \<union> Flag ` {b. Flag b \<in> set ls}"
      proof (cases l)
        case (Text s)
        with h show ?thesis by simp
      next
        case (Number x)
        with h show ?thesis by simp
      next
        case (Flag b)
        with h show ?thesis by simp
      qed
    qed
  qed
  finally show ?thesis .
qed

lemma concat_some_set:
  "set (concat (map (\<lambda>r. case lab r of None \<Rightarrow> [] | Some l \<Rightarrow> [l]) rows))
     = {l. \<exists>r \<in> set rows. lab r = Some l}"
  by (induction rows) (auto split: option.splits)

lemma group_keys_set: "set (group_keys lab rows) = {l. \<exists>r \<in> set rows. lab r = Some l}"
  unfolding group_keys_def by (simp only: set_sort_labels set_remdups concat_some_set)

lemma group_keys_empty_iff: "group_keys lab rows = [] \<longleftrightarrow> (\<forall>r \<in> set rows. lab r = None)"
proof
  assume e: "group_keys lab rows = []"
  show "\<forall>r \<in> set rows. lab r = None"
  proof
    fix r assume r: "r \<in> set rows"
    show "lab r = None"
    proof (cases "lab r")
      case None
      then show ?thesis .
    next
      case (Some l)
      with r have "l \<in> set (group_keys lab rows)" by (auto simp: group_keys_set)
      with e show ?thesis by simp
    qed
  qed
next
  assume "\<forall>r \<in> set rows. lab r = None"
  then have "set (group_keys lab rows) = {}" by (auto simp: group_keys_set)
  then show "group_keys lab rows = []" by simp
qed

lemma idxmax_groupby_some:
  "\<not> (\<forall>r \<in> set rows. lab r = None) \<Longrightarrow> \<exists>b. idxmax (groupby_mean lab col rows) = Some b"
  by (cases "group_keys lab rows") (auto simp: idxmax_def groupby_mean_def group_keys_empty_iff)

lemma idxmin_groupby_some:
  "\<not> (\<forall>r \<in> set rows. lab r = None) \<Longrightarrow> \<exists>b. idxmin (groupby_mean lab col rows) = Some b"
  by (cases "group_keys lab rows") (auto simp: idxmin_def groupby_mean_def group_keys_empty_iff)

lemma idxmax_groupby_none:
  "\<forall>r \<in> set rows. lab r = None \<Longrightarrow> idxmax (groupby_mean lab col rows) = None"
  using group_keys_empty_iff [of lab rows] by (simp add: idxmax_def groupby_mean_def)


lemma summary_none_iff:
  "csv_file st = CsvFile True df \<Longrightarrow> to_datetime_accepts pd (map timestamp df) \<Longrightarrow>
     get_metrics_summary pd st now hours = None
       \<longleftrightarrow> (\<forall>r \<in> set (recent_data df now hours). read_band pd df r = None)"
proof -
  assume c: "csv_file st = CsvFile True df"
    and a: "to_datetime_accepts pd (map timestamp df)"
  show ?thesis
  proof (cases "\<forall>r \<in> set (recent_data df now hours). read_band pd df r = None")
    case True
    from idxmax_groupby_none [OF True, of bandwidth_score] True
    show ?thesis by (simp add: get_metrics_summary_def c a Let_def)
  next
    case False
    then have ne: "recent_data df now hours \<noteq> []" by auto
    obtain b where b: "idxmax (groupby_mean (read_band pd df) bandwidth_score (recent_data df now hours)) = Some b"
      using idxmax_groupby_some [OF False] by blast
    obtain w where w: "idxmin (groupby_mean (read_band pd df) bandwidth_score (recent_data df now hours)) = Some w"
      using idxmin_groupby_some [OF False] by blast
    show ?thesis using False ne by (simp add: get_metrics_summary_def c a b w Let_def)
  qed
qed

lemma summary_total:
  "csv_file st = CsvFile True df \<Longrightarrow> get_metrics_summary pd st now hours = Some s \<Longrightarrow>
     to_datetime_accepts pd (map timestamp df)
     \<and> total_records s = length (recent_data df now hours)
     \<and> mean_bandwidth_score (average_metrics s) = np_mean (map bandwidth_score (recent_data df now hours))
     \<and> idxmax (groupby_mean (read_band pd df) bandwidth_score (recent_data df now hours))
         = Some (best_performing_band s)"
  by (auto simp: get_metrics_summary_def Let_def split: if_splits option.splits)

lemma recent_data_explicit:
  "recent_data df now hours = filter (\<lambda>r. now - hours * 3600000000 \<le> timestamp r) df"
  by (simp add: recent_data_def Timedelta_def)

lemma log_batch_csv:
  "csv_file st = CsvFile h rows \<Longrightarrow>
     csv_file (fst (log_batch_metrics st ms)) = CsvFile h (rows @ map csv_row ms)"
proof (induction ms arbitrary: st rows)
  case Nil
  then show ?case by (simp add: log_batch_metrics_def)
next
  case (Cons m ms)
  have "csv_file (fst (log_metrics st m)) = CsvFile h (rows @ [csv_row m])"
    using Cons.prems by (simp add: log_metrics_csv csv_writerow_def)
  from Cons.IH [OF this] show ?case by (simp add: log_batch_metrics_def)
qed


lemma band_csv_row: "band (csv_row m) = band m"
  by (simp add: csv_row_def)

lemma band_comp_csv_row: "band \<circ> csv_row = band"
  by (rule ext) (simp add: band_csv_row)


lemma map_band_csv_row: "map band (map csv_row ms) = map band ms"
  by (simp add: band_comp_csv_row)


lemma text_reader_plain:
  "token \<notin> set default_na_values \<Longrightarrow> text_reader column token = Some (Text token)"
  by (simp add: text_reader_def)

lemma example_pandas_fields:
  "read_band_column example_pandas = text_reader"
  "to_datetime_accepts example_pandas = one_format"
  by (simp_all add: example_pandas_def)

lemma text_reader_B3_B7:
  "text_reader column ''B3'' = Some (Text ''B3'')"
  "text_reader column ''B7'' = Some (Text ''B7'')"
  "text_reader column ''B1'' = Some (Text ''B1'')"
  by (simp_all add: text_reader_def default_na_values_def)

text \<open>
  A window whose rows all carry the NA marker \<open>NA\<close> as band has no group, and the
  summary is the empty result.
\<close>

lemma summary_of_NA_band:
  "get_metrics_summary example_pandas (fst (log_metrics new_DataLogger (sample 0 ''NA'' 15 (-85)))) 0 1
     = None"
proof -
  let ?m = "sample 0 ''NA'' 15 (-85)"
  have c: "csv_file (fst (log_metrics new_DataLogger ?m)) = CsvFile True [csv_row ?m]"
    by (simp add: log_metrics_csv csv_writerow_def new_DataLogger_csv)
  have a: "to_datetime_accepts example_pandas (map timestamp [csv_row ?m])"
    by (simp add: example_pandas_fields one_format_def csv_row_def sample_def)
  have "read_band example_pandas [csv_row ?m] (csv_row ?m) = None"
    by (simp add: read_band_def example_pandas_fields text_reader_def default_na_values_def
        csv_row_def sample_def)
  then show ?thesis
    using summary_none_iff [OF c a, of 0 1]
    by (simp add: recent_data_explicit)
qed




section \<open>Rotation\<close>






section \<open>Properties of the agent\<close>

lemma smart_band_switch_events:
  "CallSmartBandSwitch \<notin> set (smart_band_switch pd st now r1 r2)"
  by (auto simp: smart_band_switch_def Let_def split: option.splits sum.splits)

text \<open>
  Claim C3. With auto-switch disabled a round of the monitor loop never calls
  \<open>_smart_band_switch\<close>, whatever the sample. With auto-switch enabled the round runs
  \<open>_check_band_switch\<close> on the sample, which does nothing when the one-hour summary is
  empty and otherwise calls \<open>_smart_band_switch\<close> if and only if the sample's bandwidth
  score is strictly below the summary's mean bandwidth score times the configured
  threshold, 0.8 in \<open>MONITORING_CONFIG\<close>. This holds however pandas reads the band column.
\<close>

theorem check_band_switch_trigger:
  "snd (monitor_round cfg pd False st reply now1 now6 r1 r2) = []
   \<and> snd (monitor_round cfg pd True st (Some m) now1 now6 r1 r2)
       = check_band_switch cfg pd (fst (log_metrics st m)) now1 now6 r1 r2 m
   \<and> (get_metrics_summary pd st now1 1 = None \<longrightarrow> check_band_switch cfg pd st now1 now6 r1 r2 m = [])
   \<and> (get_metrics_summary pd st now1 1 = Some s \<longrightarrow>
        (CallSmartBandSwitch \<in> set (check_band_switch cfg pd st now1 now6 r1 r2 m)
           \<longleftrightarrow> calculate_bandwidth_score m
                 < mean_bandwidth_score (average_metrics s) * auto_switch_threshold cfg))
   \<and> auto_switch_threshold MONITORING_CONFIG = 0.8"
proof -
  have a: "snd (monitor_round cfg pd False st reply now1 now6 r1 r2) = []"
    by (simp add: monitor_round_def Let_def split: option.splits)
  have b: "snd (monitor_round cfg pd True st (Some m) now1 now6 r1 r2)
       = check_band_switch cfg pd (fst (log_metrics st m)) now1 now6 r1 r2 m"
    by (simp add: monitor_round_def Let_def)
  have c: "get_metrics_summary pd st now1 1 = None \<longrightarrow> check_band_switch cfg pd st now1 now6 r1 r2 m = []"
    by (simp add: check_band_switch_def)
  have d: "get_metrics_summary pd st now1 1 = Some s \<longrightarrow>
        (CallSmartBandSwitch \<in> set (check_band_switch cfg pd st now1 now6 r1 r2 m)
           \<longleftrightarrow> calculate_bandwidth_score m
                 < mean_bandwidth_score (average_metrics s) * auto_switch_threshold cfg)"
    by (simp add: check_band_switch_def Let_def current_score_eq)
  have e: "auto_switch_threshold MONITORING_CONFIG = 0.8"
    by (simp add: MONITORING_CONFIG_def)
  from a b c d e show ?thesis by blast
qed

theorem check_band_switch_trigger_witness:
  "get_metrics_summary example_pandas new_DataLogger 0 1 = None
   \<and> check_band_switch MONITORING_CONFIG example_pandas new_DataLogger 0 0 None None
         (sample 0 ''B3'' 15 (-85)) = []
   \<and> (\<exists>s. get_metrics_summary example_pandas (fst (log_metrics new_DataLogger (sample 0 ''B3'' 15 (-85)))) 0 1
            = Some s
          \<and> mean_bandwidth_score (average_metrics s) = 103 / 120
          \<and> calculate_bandwidth_score (sample 0 ''B3'' (-10) (-140))
               < mean_bandwidth_score (average_metrics s) * auto_switch_threshold MONITORING_CONFIG
          \<and> CallSmartBandSwitch
               \<in> set (check_band_switch MONITORING_CONFIG example_pandas
                        (fst (log_metrics new_DataLogger (sample 0 ''B3'' 15 (-85)))) 0 0 None None
                        (sample 0 ''B3'' (-10) (-140))))"
proof -
  let ?g = "sample 0 ''B3'' 15 (-85)"
  let ?b = "sample 0 ''B3'' (-10) (-140)"
  let ?st = "fst (log_metrics new_DataLogger ?g)"
  have n: "get_metrics_summary example_pandas new_DataLogger 0 1 = None"
    by (simp add: get_metrics_summary_def new_DataLogger_csv recent_data_def)
  have c: "csv_file ?st = CsvFile True [csv_row ?g]"
    by (simp add: log_metrics_csv csv_writerow_def new_DataLogger_csv)
  have r: "recent_data [csv_row ?g] 0 1 = [csv_row ?g]"
    by (simp add: recent_data_explicit csv_row_def sample_def)
  have a: "to_datetime_accepts example_pandas (map timestamp [csv_row ?g])"
    by (simp add: example_pandas_fields one_format_def csv_row_def sample_def)
  have "read_band example_pandas [csv_row ?g] (csv_row ?g) \<noteq> None"
    by (simp add: read_band_def example_pandas_fields text_reader_B3_B7 csv_row_def sample_def)
  then have "get_metrics_summary example_pandas ?st 0 1 \<noteq> None"
    using summary_none_iff [OF c a, of 0 1] r by simp
  then obtain s where s: "get_metrics_summary example_pandas ?st 0 1 = Some s" by blast
  have "bandwidth_score (csv_row ?g) = 103 / 120"
    by (simp add: csv_row_def calculate_bandwidth_score_def sample_def)
  with summary_total [OF c s] r have mean: "mean_bandwidth_score (average_metrics s) = 103 / 120"
    by (simp add: np_mean_def)
  have cur: "calculate_bandwidth_score ?b = 0"
    by (simp add: calculate_bandwidth_score_def sample_def)
  have thr: "auto_switch_threshold MONITORING_CONFIG = 0.8"
    by (simp add: MONITORING_CONFIG_def)
  have lt: "calculate_bandwidth_score ?b
              < mean_bandwidth_score (average_metrics s) * auto_switch_threshold MONITORING_CONFIG"
    by (simp add: cur mean thr)
  have w1: "check_band_switch MONITORING_CONFIG example_pandas new_DataLogger 0 0 None None ?g = []"
    using check_band_switch_trigger
      [where st = new_DataLogger and ?now1.0 = 0 and cfg = MONITORING_CONFIG and ?now6.0 = 0
         and pd = example_pandas and ?r1.0 = None and ?r2.0 = None and m = ?g] n
    by blast
  have w2: "CallSmartBandSwitch
              \<in> set (check_band_switch MONITORING_CONFIG example_pandas ?st 0 0 None None ?b)"
    using check_band_switch_trigger
      [where st = ?st and ?now1.0 = 0 and cfg = MONITORING_CONFIG and ?now6.0 = 0
         and pd = example_pandas and ?r1.0 = None and ?r2.0 = None and m = ?b and s = s] s lt
    by blast
  from n w1 s mean lt w2 show ?thesis by blast
qed

subsection \<open>The smart band switch\<close>

lemma first_max_unique:
  "(b, vb) \<in> set (kv # kvs) \<Longrightarrow>
   (\<forall>(k, v) \<in> set (kv # kvs). (k = b \<longrightarrow> v = vb) \<and> (k \<noteq> b \<longrightarrow> v < vb)) \<Longrightarrow>
   first_max kv kvs = b"
proof (induction kvs arbitrary: kv)
  case Nil
  then show ?case by (cases kv) auto
next
  case (Cons a kvs)
  obtain k v where kv: "kv = (k, v)" by (cases kv)
  obtain k' v' where a: "a = (k', v')" by (cases a)
  show ?case
  proof (cases "v' > v")
    case True
    have "k \<noteq> b" using Cons.prems(2) True kv a by fastforce
    then have "(b, vb) \<in> set (a # kvs)" using Cons.prems(1) kv by auto
    moreover have "\<forall>(k, v) \<in> set (a # kvs). (k = b \<longrightarrow> v = vb) \<and> (k \<noteq> b \<longrightarrow> v < vb)"
      using Cons.prems(2) by auto
    ultimately have "first_max a kvs = b" by (rule Cons.IH)
    then show ?thesis using True kv a by simp
  next
    case False
    have "k' \<noteq> b \<or> k = b" using Cons.prems(2) False kv a by fastforce
    then have "(b, vb) \<in> set (kv # kvs)" using Cons.prems kv a by auto
    moreover have "\<forall>(k, v) \<in> set (kv # kvs). (k = b \<longrightarrow> v = vb) \<and> (k \<noteq> b \<longrightarrow> v < vb)"
      using Cons.prems(2) by auto
    ultimately have "first_max kv kvs = b" by (rule Cons.IH)
    then show ?thesis using False kv a by simp
  qed
qed

lemma idxmax_unique:
  assumes "(b, vb) \<in> set kvs"
    and "\<forall>(k, v) \<in> set kvs. (k = b \<longrightarrow> v = vb) \<and> (k \<noteq> b \<longrightarrow> v < vb)"
  shows "idxmax kvs = Some b"
proof (cases kvs)
  case Nil
  with assms(1) show ?thesis by simp
next
  case (Cons kv rest)
  with assms first_max_unique [of b vb kv rest] show ?thesis by (simp add: idxmax_def)
qed

lemma idxmax_groupby_unique:
  assumes "l \<in> set (group_keys lab rows)"
    and "\<forall>l' \<in> set (group_keys lab rows). l' \<noteq> l \<longrightarrow> band_mean lab rows l' < band_mean lab rows l"
  shows "idxmax (groupby_mean lab bandwidth_score rows) = Some l"
proof (rule idxmax_unique [where vb = "band_mean lab rows l"])
  show "(l, band_mean lab rows l) \<in> set (groupby_mean lab bandwidth_score rows)"
    using assms(1) by (auto simp: groupby_mean_def band_mean_def group_of_def)
  show "\<forall>(k, v) \<in> set (groupby_mean lab bandwidth_score rows).
          (k = l \<longrightarrow> v = band_mean lab rows l) \<and> (k \<noteq> l \<longrightarrow> v < band_mean lab rows l)"
    using assms(2) by (auto simp: groupby_mean_def band_mean_def group_of_def)
qed

text \<open>
  What \<open>_smart_band_switch\<close> does with the two replies of the router, for a summary whose
  best band is \<open>l\<close>: with no first reply the current band is \<open>None\<close>; with a first reply
  and no second reply \<open>None.band\<close> raises and nothing is issued; otherwise the band of the
  second reply is the current band.
\<close>

lemma smart_band_switch_two_replies:
  assumes "get_metrics_summary pd st now 6 = Some s"
  shows "smart_band_switch pd st now r1 r2 =
           (case r1 of
              None \<Rightarrow> if truthy (best_performing_band s) then [RouterSetLteBand (best_performing_band s)]
                      else []
            | Some m1 \<Rightarrow>
                (case r2 of
                   None \<Rightarrow> []
                 | Some m2 \<Rightarrow>
                     if truthy (best_performing_band s)
                        \<and> label_ne (best_performing_band s) (Some (band m2))
                     then [RouterSetLteBand (best_performing_band s)] else []))"
  using assms
  by (cases "best_performing_band s")
     (auto simp: smart_band_switch_def current_band_of_def Let_def split: option.splits)

text \<open>
  The six-hour history: the rows stamped at or after \<open>now - 21600000000\<close> microseconds.
  When \<open>to_datetime\<close> accepts the timestamp column of the file and the mean bandwidth scores of its bands have a unique maximum, at the band \<open>l\<close>, the
  summary names \<open>l\<close> the best band, and a router whose two replies agree gets exactly one
  command, for \<open>l\<close>, unless \<open>l\<close> is a text equal to the band it reports or the text is
  empty. A label that pandas has read as a number is never equal to the band the router
  reports, so the command is issued even when the router is on that band.
\<close>

lemma smart_switch_unique_max:
  assumes c: "csv_file st = CsvFile True df"
    and a: "to_datetime_accepts pd (map timestamp df)"
    and l: "l \<in> set (group_keys (read_band pd df) (filter (\<lambda>r. now - 21600000000 \<le> timestamp r) df))"
    and u: "\<forall>l' \<in> set (group_keys (read_band pd df) (filter (\<lambda>r. now - 21600000000 \<le> timestamp r) df)).
              l' \<noteq> l \<longrightarrow>
                band_mean (read_band pd df) (filter (\<lambda>r. now - 21600000000 \<le> timestamp r) df) l'
                  < band_mean (read_band pd df) (filter (\<lambda>r. now - 21600000000 \<le> timestamp r) df) l"
  shows "(\<exists>s. get_metrics_summary pd st now 6 = Some s \<and> best_performing_band s = l)
         \<and> smart_band_switch pd st now r r
             = (if truthy l \<and> label_ne l (map_option band r) then [RouterSetLteBand l] else [])"
proof -
  have rw: "recent_data df now 6 = filter (\<lambda>r. now - 21600000000 \<le> timestamp r) df"
    by (simp add: recent_data_explicit)
  from l have "\<not> (\<forall>r \<in> set (recent_data df now 6). read_band pd df r = None)"
    using group_keys_empty_iff [of "read_band pd df" "recent_data df now 6"] by (auto simp: rw)
  then have "get_metrics_summary pd st now 6 \<noteq> None"
    using summary_none_iff [OF c a, of now 6] by simp
  then obtain s where s: "get_metrics_summary pd st now 6 = Some s" by blast
  from summary_total [OF c s] idxmax_groupby_unique [OF l u]
  have best: "best_performing_band s = l" by (simp add: rw)
  have "smart_band_switch pd st now r r
          = (if truthy l \<and> label_ne l (map_option band r) then [RouterSetLteBand l] else [])"
    using smart_band_switch_two_replies [OF s, of r r] best
    by (cases l) (auto split: option.splits)
  with s best show ?thesis by blast
qed

text \<open>
  Claim C1 at a failing input. The log holds a sample of band B1 stamped seven hours
  before the query, with the best possible score, and two samples stamped one hour before
  it: SINR 15 and RSRP -85 on band B3, SINR 5 and RSRP -100 on band B7. The three bands
  are read as texts and the three timestamps are whole seconds (\<open>example_pandas\<close>). The
  six-hour history is the two later samples, and the summary names B3 the best band. The router is
  on B7. When its two replies agree, the code issues the one command for B3, as the claim
  says. But the code asks the router twice: when the first reply is the sample on B7 and
  the second request fails, \<open>None.band\<close> raises, the exception is swallowed and no command
  is issued, although B3 differs from the band the router reported.
\<close>

theorem smart_switch_second_reply_missing:
  "csv_file (fst (log_batch_metrics new_DataLogger
       [sample (-25200000000) ''B1'' 20 (-80), sample (-3600000000) ''B3'' 15 (-85),
        sample (-3600000000) ''B7'' 5 (-100)]))
     = CsvFile True
         [csv_row (sample (-25200000000) ''B1'' 20 (-80)), csv_row (sample (-3600000000) ''B3'' 15 (-85)),
          csv_row (sample (-3600000000) ''B7'' 5 (-100))]
   \<and> spec_window
         [csv_row (sample (-25200000000) ''B1'' 20 (-80)), csv_row (sample (-3600000000) ''B3'' 15 (-85)),
          csv_row (sample (-3600000000) ''B7'' 5 (-100))] 0 6
       = [csv_row (sample (-3600000000) ''B3'' 15 (-85)), csv_row (sample (-3600000000) ''B7'' 5 (-100))]
   \<and> bandwidth_score (csv_row (sample (-25200000000) ''B1'' 20 (-80))) = 1
   \<and> bandwidth_score (csv_row (sample (-3600000000) ''B3'' 15 (-85))) = 103 / 120
   \<and> bandwidth_score (csv_row (sample (-3600000000) ''B7'' 5 (-100))) = 11 / 20
   \<and> (\<exists>s. get_metrics_summary example_pandas
              (fst (log_batch_metrics new_DataLogger
                 [sample (-25200000000) ''B1'' 20 (-80), sample (-3600000000) ''B3'' 15 (-85),
                  sample (-3600000000) ''B7'' 5 (-100)])) 0 6 = Some s
          \<and> best_performing_band s = Text ''B3'')
   \<and> smart_band_switch example_pandas
         (fst (log_batch_metrics new_DataLogger
            [sample (-25200000000) ''B1'' 20 (-80), sample (-3600000000) ''B3'' 15 (-85),
             sample (-3600000000) ''B7'' 5 (-100)]))
         0 (Some (sample 0 ''B7'' 5 (-100))) (Some (sample 0 ''B7'' 5 (-100)))
       = [RouterSetLteBand (Text ''B3'')]
   \<and> smart_band_switch example_pandas
         (fst (log_batch_metrics new_DataLogger
            [sample (-25200000000) ''B1'' 20 (-80), sample (-3600000000) ''B3'' 15 (-85),
             sample (-3600000000) ''B7'' 5 (-100)]))
         0 (Some (sample 0 ''B7'' 5 (-100))) None
       = []"
proof -
  let ?o = "sample (-25200000000) ''B1'' 20 (-80)"
  let ?g = "sample (-3600000000) ''B3'' 15 (-85)"
  let ?p = "sample (-3600000000) ''B7'' 5 (-100)"
  let ?cur = "sample 0 ''B7'' 5 (-100)"
  let ?df = "[csv_row ?o, csv_row ?g, csv_row ?p]"
  let ?rec = "[csv_row ?g, csv_row ?p]"
  let ?st = "fst (log_batch_metrics new_DataLogger [?o, ?g, ?p])"
  have c: "csv_file ?st = CsvFile True ?df"
    using log_batch_csv [OF new_DataLogger_csv, of "[?o, ?g, ?p]"] by simp
  have t: "timestamp (csv_row ?o) = -25200000000" "timestamp (csv_row ?g) = -3600000000"
    "timestamp (csv_row ?p) = -3600000000"
    by (simp_all add: csv_row_def sample_def)
  have b: "band (csv_row ?o) = ''B1''" "band (csv_row ?g) = ''B3''" "band (csv_row ?p) = ''B7''"
    by (simp_all add: csv_row_def sample_def)
  have sc: "bandwidth_score (csv_row ?o) = 1" "bandwidth_score (csv_row ?g) = 103 / 120"
    "bandwidth_score (csv_row ?p) = 11 / 20"
    by (simp_all add: csv_row_def calculate_bandwidth_score_def sample_def)
  have w: "spec_window ?df 0 6 = ?rec"
    by (simp add: spec_window_def t)
  have f: "filter (\<lambda>r. 0 - 21600000000 \<le> timestamp r) ?df = ?rec"
    by (simp add: t)
  have a: "to_datetime_accepts example_pandas (map timestamp ?df)"
    by (simp add: example_pandas_fields one_format_def t)
  have lab: "read_band example_pandas ?df (csv_row ?g) = Some (Text ''B3'')"
    "read_band example_pandas ?df (csv_row ?p) = Some (Text ''B7'')"
    by (simp_all add: read_band_def b example_pandas_fields text_reader_B3_B7)
  have k: "set (group_keys (read_band example_pandas ?df) ?rec) = {Text ''B3'', Text ''B7''}"
    by (auto simp: group_keys_set lab)
  have m3: "band_mean (read_band example_pandas ?df) ?rec (Text ''B3'') = 103 / 120"
    by (simp add: band_mean_def lab sc np_mean_def)
  have m7: "band_mean (read_band example_pandas ?df) ?rec (Text ''B7'') = 11 / 20"
    by (simp add: band_mean_def lab sc np_mean_def)
  have l: "Text ''B3'' \<in> set (group_keys (read_band example_pandas ?df)
                                 (filter (\<lambda>r. 0 - 21600000000 \<le> timestamp r) ?df))"
    by (simp only: f k) simp
  have u: "\<forall>l' \<in> set (group_keys (read_band example_pandas ?df)
                          (filter (\<lambda>r. 0 - 21600000000 \<le> timestamp r) ?df)).
             l' \<noteq> Text ''B3'' \<longrightarrow>
               band_mean (read_band example_pandas ?df) (filter (\<lambda>r. 0 - 21600000000 \<le> timestamp r) ?df) l'
                 < band_mean (read_band example_pandas ?df)
                     (filter (\<lambda>r. 0 - 21600000000 \<le> timestamp r) ?df) (Text ''B3'')"
    by (simp only: f k) (simp add: m3 m7)
  from smart_switch_unique_max [OF c a l u, of "Some ?cur"]
  have best: "\<exists>s. get_metrics_summary example_pandas ?st 0 6 = Some s \<and> best_performing_band s = Text ''B3''"
    and agree: "smart_band_switch example_pandas ?st 0 (Some ?cur) (Some ?cur) = [RouterSetLteBand (Text ''B3'')]"
    by (simp_all add: sample_def)
  from best obtain s where s: "get_metrics_summary example_pandas ?st 0 6 = Some s" by blast
  have miss: "smart_band_switch example_pandas ?st 0 (Some ?cur) None = []"
    using smart_band_switch_two_replies [OF s, of "Some ?cur" None] by simp
  from c w sc best agree miss show ?thesis by simp
qed

section \<open>Properties of the band analysis\<close>

lemma bandwidth_scores_eq: "bandwidth_scores ms = map calculate_bandwidth_score ms"
  by (simp add: bandwidth_scores_def calculate_bandwidth_score_def)

lemma np_std_eq_spec: "np_std xs = spec_population_std xs"
  by (simp add: np_std_def spec_population_std_def np_mean_def)

lemma np_mean_bounds:
  assumes "xs \<noteq> []" and "\<forall>x \<in> set xs. lo \<le> x \<and> x \<le> hi"
  shows "lo \<le> np_mean xs \<and> np_mean xs \<le> hi"
proof -
  have n: "0 < real (length xs)" using assms(1) by simp
  have "sum_list (map (\<lambda>x. lo) xs) \<le> sum_list (map (\<lambda>x. x) xs)"
    using assms(2) by (intro sum_list_mono) simp
  then have l: "real (length xs) * lo \<le> sum_list xs"
    by (simp add: sum_list_triv)
  have "sum_list (map (\<lambda>x. x) xs) \<le> sum_list (map (\<lambda>x. hi) xs)"
    using assms(2) by (intro sum_list_mono) simp
  then have h: "sum_list xs \<le> real (length xs) * hi"
    by (simp add: sum_list_triv)
  from n l h show ?thesis
    by (simp add: np_mean_def pos_le_divide_eq pos_divide_le_eq mult.commute)
qed

lemma np_std_unit_interval:
  assumes "xs \<noteq> []" and "\<forall>x \<in> set xs. 0 \<le> x \<and> x \<le> 1"
  shows "0 \<le> np_std xs \<and> np_std xs \<le> 1"
proof -
  from np_mean_bounds [OF assms] have mu: "0 \<le> np_mean xs \<and> np_mean xs \<le> 1" .
  have sq: "\<forall>y \<in> set (map (\<lambda>x. \<bar>x - np_mean xs\<bar> ^ 2) xs). 0 \<le> y \<and> y \<le> 1"
  proof
    fix y assume "y \<in> set (map (\<lambda>x. \<bar>x - np_mean xs\<bar> ^ 2) xs)"
    then obtain x where x: "x \<in> set xs" and y: "y = \<bar>x - np_mean xs\<bar> ^ 2" by auto
    from x assms(2) mu have "\<bar>x - np_mean xs\<bar> \<le> 1" by auto
    then have "\<bar>x - np_mean xs\<bar> ^ 2 \<le> 1"
      by (intro power_le_one) simp_all
    with y show "0 \<le> y \<and> y \<le> 1" by simp
  qed
  have ne: "map (\<lambda>x. \<bar>x - np_mean xs\<bar> ^ 2) xs \<noteq> []" using assms(1) by simp
  from np_mean_bounds [OF ne sq]
  have v: "0 \<le> np_mean (map (\<lambda>x. \<bar>x - np_mean xs\<bar> ^ 2) xs)
           \<and> np_mean (map (\<lambda>x. \<bar>x - np_mean xs\<bar> ^ 2) xs) \<le> 1" .
  then show ?thesis by (simp add: np_std_def)
qed

lemma stability_score_range:
  "ms \<noteq> [] \<Longrightarrow>
     0 \<le> stability_score (analyze_band_performance b ms)
     \<and> stability_score (analyze_band_performance b ms) \<le> 1"
proof -
  assume ne: "ms \<noteq> []"
  have "\<forall>x \<in> set (bandwidth_scores ms). 0 \<le> x \<and> x \<le> 1"
    using bandwidth_score_range by (auto simp: bandwidth_scores_eq)
  moreover have "bandwidth_scores ms \<noteq> []" using ne by (simp add: bandwidth_scores_eq)
  ultimately have "0 \<le> np_std (bandwidth_scores ms) \<and> np_std (bandwidth_scores ms) \<le> 1"
    using np_std_unit_interval by blast
  then show ?thesis using ne by (simp add: analyze_band_performance_def Let_def)
qed

text \<open>
  Claim C6, as stated, fails in one point: the stability score is never negative. The
  bandwidth scores lie in \<open>[0,1]\<close>, so their population standard deviation is at most 1.
\<close>

theorem stability_score_negative_counterexample:
  "\<not> (\<exists>b ms. stability_score (analyze_band_performance b ms) < 0)"
proof
  assume "\<exists>b ms. stability_score (analyze_band_performance b ms) < 0"
  then obtain b ms where neg: "stability_score (analyze_band_performance b ms) < 0" by blast
  show False
  proof (cases "ms = []")
    case True
    with neg show False by (simp add: analyze_band_performance_def)
  next
    case False
    from stability_score_range [OF False, of b] neg show False by simp
  qed
qed

text \<open>
  Claim C6, amended. For every band and non-empty sample list the stability score is 1
  minus the population standard deviation of the per-sample bandwidth scores; it is not
  clamped, and it lies in \<open>[0,1]\<close>. Peak and off-peak performance are the mean SINR over
  the samples whose hour of day is one of 7, 8, 9, 17, 18, 19 and over the remaining
  samples, each 0 when its set is empty. For the empty sample list the result has the
  band and 0 in every numeric field; the function returns a value on every input.
\<close>

theorem analyze_band_performance_values:
  "(ms \<noteq> [] \<longrightarrow>
      stability_score (analyze_band_performance b ms)
        = 1 - spec_population_std (map calculate_bandwidth_score ms)
      \<and> 0 \<le> stability_score (analyze_band_performance b ms)
      \<and> stability_score (analyze_band_performance b ms) \<le> 1
      \<and> peak_performance (analyze_band_performance b ms)
          = (if filter (\<lambda>m. hour (timestamp m) \<in> {7, 8, 9, 17, 18, 19}) ms = [] then 0
             else sum_list (map sinr (filter (\<lambda>m. hour (timestamp m) \<in> {7, 8, 9, 17, 18, 19}) ms))
                  / real (length (filter (\<lambda>m. hour (timestamp m) \<in> {7, 8, 9, 17, 18, 19}) ms)))
      \<and> off_peak_performance (analyze_band_performance b ms)
          = (if filter (\<lambda>m. hour (timestamp m) \<notin> {7, 8, 9, 17, 18, 19}) ms = [] then 0
             else sum_list (map sinr (filter (\<lambda>m. hour (timestamp m) \<notin> {7, 8, 9, 17, 18, 19}) ms))
                  / real (length (filter (\<lambda>m. hour (timestamp m) \<notin> {7, 8, 9, 17, 18, 19}) ms))))
   \<and> analyze_band_performance b []
       = \<lparr>bp_band = b, avg_rsrp = 0, avg_rsrq = 0, avg_sinr = 0, avg_bandwidth_score = 0,
          stability_score = 0, peak_performance = 0, off_peak_performance = 0\<rparr>"
proof -
  have e: "analyze_band_performance b []
       = \<lparr>bp_band = b, avg_rsrp = 0, avg_rsrq = 0, avg_sinr = 0, avg_bandwidth_score = 0,
          stability_score = 0, peak_performance = 0, off_peak_performance = 0\<rparr>"
    by (simp add: analyze_band_performance_def)
  have n: "ms \<noteq> [] \<longrightarrow>
      stability_score (analyze_band_performance b ms)
        = 1 - spec_population_std (map calculate_bandwidth_score ms)
      \<and> 0 \<le> stability_score (analyze_band_performance b ms)
      \<and> stability_score (analyze_band_performance b ms) \<le> 1
      \<and> peak_performance (analyze_band_performance b ms)
          = (if filter (\<lambda>m. hour (timestamp m) \<in> {7, 8, 9, 17, 18, 19}) ms = [] then 0
             else sum_list (map sinr (filter (\<lambda>m. hour (timestamp m) \<in> {7, 8, 9, 17, 18, 19}) ms))
                  / real (length (filter (\<lambda>m. hour (timestamp m) \<in> {7, 8, 9, 17, 18, 19}) ms)))
      \<and> off_peak_performance (analyze_band_performance b ms)
          = (if filter (\<lambda>m. hour (timestamp m) \<notin> {7, 8, 9, 17, 18, 19}) ms = [] then 0
             else sum_list (map sinr (filter (\<lambda>m. hour (timestamp m) \<notin> {7, 8, 9, 17, 18, 19}) ms))
                  / real (length (filter (\<lambda>m. hour (timestamp m) \<notin> {7, 8, 9, 17, 18, 19}) ms)))"
  proof
    assume ne: "ms \<noteq> []"
    have s: "stability_score (analyze_band_performance b ms)
               = 1 - spec_population_std (map calculate_bandwidth_score ms)"
      using ne by (simp add: analyze_band_performance_def Let_def np_std_eq_spec bandwidth_scores_eq)
    have p: "peak_performance (analyze_band_performance b ms)
          = (if filter (\<lambda>m. hour (timestamp m) \<in> {7, 8, 9, 17, 18, 19}) ms = [] then 0
             else sum_list (map sinr (filter (\<lambda>m. hour (timestamp m) \<in> {7, 8, 9, 17, 18, 19}) ms))
                  / real (length (filter (\<lambda>m. hour (timestamp m) \<in> {7, 8, 9, 17, 18, 19}) ms)))"
      using ne by (simp add: analyze_band_performance_def Let_def np_mean_def)
    have o: "off_peak_performance (analyze_band_performance b ms)
          = (if filter (\<lambda>m. hour (timestamp m) \<notin> {7, 8, 9, 17, 18, 19}) ms = [] then 0
             else sum_list (map sinr (filter (\<lambda>m. hour (timestamp m) \<notin> {7, 8, 9, 17, 18, 19}) ms))
                  / real (length (filter (\<lambda>m. hour (timestamp m) \<notin> {7, 8, 9, 17, 18, 19}) ms)))"
      using ne by (simp add: analyze_band_performance_def Let_def np_mean_def)
    from s p o stability_score_range [OF ne, of b]
    show "stability_score (analyze_band_performance b ms)
        = 1 - spec_population_std (map calculate_bandwidth_score ms)
      \<and> 0 \<le> stability_score (analyze_band_performance b ms)
      \<and> stability_score (analyze_band_performance b ms) \<le> 1
      \<and> peak_performance (analyze_band_performance b ms)
          = (if filter (\<lambda>m. hour (timestamp m) \<in> {7, 8, 9, 17, 18, 19}) ms = [] then 0
             else sum_list (map sinr (filter (\<lambda>m. hour (timestamp m) \<in> {7, 8, 9, 17, 18, 19}) ms))
                  / real (length (filter (\<lambda>m. hour (timestamp m) \<in> {7, 8, 9, 17, 18, 19}) ms)))
      \<and> off_peak_performance (analyze_band_performance b ms)
          = (if filter (\<lambda>m. hour (timestamp m) \<notin> {7, 8, 9, 17, 18, 19}) ms = [] then 0
             else sum_list (map sinr (filter (\<lambda>m. hour (timestamp m) \<notin> {7, 8, 9, 17, 18, 19}) ms))
                  / real (length (filter (\<lambda>m. hour (timestamp m) \<notin> {7, 8, 9, 17, 18, 19}) ms)))"
      by blast
  qed
  from n e show ?thesis by blast
qed

theorem analyze_band_performance_values_witness:
  "[sample 28800000000 ''B3'' 15 (-85), sample 43200000000 ''B3'' 5 (-100)] \<noteq> []
   \<and> stability_score (analyze_band_performance ''B3''
         [sample 28800000000 ''B3'' 15 (-85), sample 43200000000 ''B3'' 5 (-100)]) = 203 / 240
   \<and> peak_performance (analyze_band_performance ''B3''
         [sample 28800000000 ''B3'' 15 (-85), sample 43200000000 ''B3'' 5 (-100)]) = 15
   \<and> off_peak_performance (analyze_band_performance ''B3''
         [sample 28800000000 ''B3'' 15 (-85), sample 43200000000 ''B3'' 5 (-100)]) = 5"
proof -
  let ?a = "sample 28800000000 ''B3'' 15 (-85)"
  let ?b = "sample 43200000000 ''B3'' 5 (-100)"
  have sa: "calculate_bandwidth_score ?a = 103 / 120"
    and sb: "calculate_bandwidth_score ?b = 11 / 20"
    by (simp_all add: calculate_bandwidth_score_def sample_def)
  have "spec_population_std [103 / 120, 11 / 20] = sqrt ((37 / 240) ^ 2)"
    by (simp add: spec_population_std_def power2_eq_square)
  then have sd: "spec_population_std [103 / 120, 11 / 20] = 37 / 240"
    by simp
  have ha: "hour (timestamp ?a) = 8" and hb: "hour (timestamp ?b) = 12"
    by (simp_all add: sample_def hour_def)
  have va: "sinr ?a = 15" and vb: "sinr ?b = 5"
    by (simp_all add: sample_def)
  show ?thesis
    using analyze_band_performance_values [where ms = "[?a, ?b]" and b = "''B3''"]
    by (simp add: sa sb sd ha hb va vb)
qed

section \<open>Properties of the peak-hour optimisation\<close>

text \<open>
  The peak test: when every configured period parses, the hour is a peak hour exactly
  when some period has \<open>start_hour \<le> hour \<le> end_hour\<close>, the minutes of the
  configured bounds being cut off by the split at the colon.
\<close>

lemma is_peak_hour_iff:
  assumes "\<forall>(n, p) \<in> set periods.
             py_int (split_colon_0 (period_start p)) \<noteq> None
             \<and> py_int (split_colon_0 (period_end p)) \<noteq> None"
  shows "is_peak_hour periods h
           = Inr (\<exists>(n, p) \<in> set periods.
                    the (py_int (split_colon_0 (period_start p))) \<le> h
                    \<and> h \<le> the (py_int (split_colon_0 (period_end p))))"
  using assms
proof (induction periods)
  case Nil
  show ?case by simp
next
  case (Cons np periods)
  obtain n p where np: "np = (n, p)" by (cases np)
  from Cons.prems np obtain s e
    where s: "py_int (split_colon_0 (period_start p)) = Some s"
      and e: "py_int (split_colon_0 (period_end p)) = Some e"
    by auto
  have rest: "\<forall>(n, p) \<in> set periods.
             py_int (split_colon_0 (period_start p)) \<noteq> None
             \<and> py_int (split_colon_0 (period_end p)) \<noteq> None"
    using Cons.prems by simp
  show ?case
  proof (cases "s \<le> h \<and> h \<le> e")
    case True
    then show ?thesis using np s e by auto
  next
    case False
    then show ?thesis using np s e Cons.IH [OF rest] by auto
  qed
qed

lemma is_peak_hour_MONITORING_CONFIG:
  "is_peak_hour (peak_hours MONITORING_CONFIG) h = Inr ((7 \<le> h \<and> h \<le> 9) \<or> (17 \<le> h \<and> h \<le> 19))"
  by (simp add: MONITORING_CONFIG_def py_int_def split_colon_0_def)

lemma optimize_for_peak_hours_branch:
  "is_peak_hour (peak_hours cfg) (hour now) = Inr pk \<Longrightarrow>
     optimize_for_peak_hours cfg pd st now r
       = (if pk then switch_to_peak_optimized_band pd st r
          else switch_to_stability_optimized_band pd st r)"
  by (simp add: optimize_for_peak_hours_def Let_def)

text \<open>Without comparison data neither selection does anything.\<close>

lemma switch_without_data:
  "export_band_comparison pd st = None \<or> export_band_comparison pd st = Some [] \<Longrightarrow>
     switch_to_peak_optimized_band pd st r = [] \<and> switch_to_stability_optimized_band pd st r = []"
  by (auto simp: switch_to_peak_optimized_band_def switch_to_stability_optimized_band_def)

text \<open>
  Either selection issues at most one command, and only for a label that differs from the
  band the router reports.
\<close>

lemma switch_only_if_different:
  "(switch_to_peak_optimized_band pd st r = []
      \<or> (\<exists>l. switch_to_peak_optimized_band pd st r = [RouterSetLteBand l]
               \<and> label_ne l (map_option band r)))
   \<and> (switch_to_stability_optimized_band pd st r = []
      \<or> (\<exists>l. switch_to_stability_optimized_band pd st r = [RouterSetLteBand l]
               \<and> label_ne l (map_option band r)))"
  by (auto simp: switch_to_peak_optimized_band_def switch_to_stability_optimized_band_def Let_def
      split: option.splits)

text \<open>
  The peak selection on the log of the example below, for every pandas that reads the
  labels B3 and B7 of its band column as the texts written and accepts its timestamp
  column.
\<close>

lemma peak_selection_any_reader:
  assumes r3: "read_band_column pd [''B3'', ''B3'', ''B7'', ''B7''] ''B3'' = Some (Text ''B3'')"
    and r7: "read_band_column pd [''B3'', ''B3'', ''B7'', ''B7''] ''B7'' = Some (Text ''B7'')"
    and ta: "to_datetime_accepts pd [28800000000, 43200000000, 28800000000, 43200000000]"
  shows "optimize_for_peak_hours MONITORING_CONFIG pd
           (fst (log_batch_metrics new_DataLogger
              [sample 28800000000 ''B3'' 5 (-85), sample 43200000000 ''B3'' 25 (-85),
               sample 28800000000 ''B7'' 10 (-85), sample 43200000000 ''B7'' 10 (-85)]))
           28800000000 (Some (sample 28800000000 ''B3'' 5 (-85)))
         = []"
proof -
  let ?ms = "[sample 28800000000 ''B3'' 5 (-85), sample 43200000000 ''B3'' 25 (-85),
              sample 28800000000 ''B7'' 10 (-85), sample 43200000000 ''B7'' 10 (-85)]"
  let ?st = "fst (log_batch_metrics new_DataLogger ?ms)"
  let ?a = "csv_row (sample 28800000000 ''B3'' 5 (-85))"
  let ?b = "csv_row (sample 43200000000 ''B3'' 25 (-85))"
  let ?c = "csv_row (sample 28800000000 ''B7'' 10 (-85))"
  let ?d = "csv_row (sample 43200000000 ''B7'' 10 (-85))"
  let ?rows = "[?a, ?b, ?c, ?d]"
  have c: "csv_file ?st = CsvFile True ?rows"
    using log_batch_csv [OF new_DataLogger_csv, of ?ms] by simp
  have pk: "is_peak_hour (peak_hours MONITORING_CONFIG) (hour 28800000000) = Inr True"
    by (simp add: is_peak_hour_MONITORING_CONFIG hour_def)
  have bs: "map band ?rows = [''B3'', ''B3'', ''B7'', ''B7'']"
    by (simp add: csv_row_def sample_def)
  have acc: "to_datetime_accepts pd [timestamp ?a, timestamp ?b, timestamp ?c, timestamp ?d]"
    using ta by (simp add: csv_row_def sample_def)
  have lab: "read_band pd ?rows ?a = Some (Text ''B3'')" "read_band pd ?rows ?b = Some (Text ''B3'')"
    "read_band pd ?rows ?c = Some (Text ''B7'')" "read_band pd ?rows ?d = Some (Text ''B7'')"
    unfolding read_band_def bs by (simp_all add: csv_row_def sample_def r3 r7)
  have k: "group_keys (read_band pd ?rows) ?rows = [Text ''B3'', Text ''B7'']"
    by (simp add: group_keys_def sort_labels_def lab)
  have v: "sinr ?a = 5" "sinr ?b = 25" "sinr ?c = 10" "sinr ?d = 10"
    by (simp_all add: csv_row_def sample_def)
  have m3: "round2 (np_mean (map sinr (group_of (read_band pd ?rows) ?rows (Text ''B3'')))) = 15"
    by (simp add: group_of_def lab v np_mean_def round2_def rint_def)
  have m7: "round2 (np_mean (map sinr (group_of (read_band pd ?rows) ?rows (Text ''B7'')))) = 10"
    by (simp add: group_of_def lab v np_mean_def round2_def rint_def)
  have e: "map (\<lambda>(b, s). (b, sinr_mean s)) (the (export_band_comparison pd ?st))
             = [(Text ''B3'', 15), (Text ''B7'', 10)]"
    by (simp add: export_band_comparison_def c acc k m3 m7)
  have ex: "export_band_comparison pd ?st \<noteq> None \<and> the (export_band_comparison pd ?st) \<noteq> []"
    by (simp add: export_band_comparison_def c acc k)
  have sw: "switch_to_peak_optimized_band pd ?st (Some (sample 28800000000 ''B3'' 5 (-85))) = []"
    using e ex
    by (auto simp: switch_to_peak_optimized_band_def idxmax_def sample_def Let_def
        split: option.splits)
  show ?thesis
    using optimize_for_peak_hours_branch [OF pk] sw by simp
qed

text \<open>
  Claim C4 at a failing input. The log holds, for band B3, a sample of SINR 5 at 8 o'clock
  and one of SINR 25 at 12 o'clock, and for band B7 a sample of SINR 10 at each of the two
  hours; the bands are read as texts and the timestamps are whole seconds
  (\<open>example_pandas\<close>); the router is on B3 and the clock is at 8, a peak hour. Over the peak hours B7 has
  the higher mean SINR (10 against 5), so the claim has the agent switch to B7. The code
  compares the \<open>sinr_mean\<close> column of the export, the mean over all hours (15 for B3, 10 for
  B7), finds B3 the best, and issues no command.
\<close>

theorem peak_selection_ignores_peak_hours:
  "csv_file (fst (log_batch_metrics new_DataLogger
       [sample 28800000000 ''B3'' 5 (-85), sample 43200000000 ''B3'' 25 (-85),
        sample 28800000000 ''B7'' 10 (-85), sample 43200000000 ''B7'' 10 (-85)]))
     = CsvFile True (map csv_row
       [sample 28800000000 ''B3'' 5 (-85), sample 43200000000 ''B3'' 25 (-85),
        sample 28800000000 ''B7'' 10 (-85), sample 43200000000 ''B7'' 10 (-85)])
   \<and> is_peak_hour (peak_hours MONITORING_CONFIG) (hour 28800000000) = Inr True
   \<and> spec_peak_hour_sinr (map csv_row
       [sample 28800000000 ''B3'' 5 (-85), sample 43200000000 ''B3'' 25 (-85),
        sample 28800000000 ''B7'' 10 (-85), sample 43200000000 ''B7'' 10 (-85)]) ''B3'' = 5
   \<and> spec_peak_hour_sinr (map csv_row
       [sample 28800000000 ''B3'' 5 (-85), sample 43200000000 ''B3'' 25 (-85),
        sample 28800000000 ''B7'' 10 (-85), sample 43200000000 ''B7'' 10 (-85)]) ''B7'' = 10
   \<and> optimize_for_peak_hours MONITORING_CONFIG example_pandas
         (fst (log_batch_metrics new_DataLogger
            [sample 28800000000 ''B3'' 5 (-85), sample 43200000000 ''B3'' 25 (-85),
             sample 28800000000 ''B7'' 10 (-85), sample 43200000000 ''B7'' 10 (-85)]))
         28800000000 (Some (sample 28800000000 ''B3'' 5 (-85)))
       = []"
proof -
  let ?ms = "[sample 28800000000 ''B3'' 5 (-85), sample 43200000000 ''B3'' 25 (-85),
              sample 28800000000 ''B7'' 10 (-85), sample 43200000000 ''B7'' 10 (-85)]"
  let ?st = "fst (log_batch_metrics new_DataLogger ?ms)"
  have c: "csv_file ?st = CsvFile True (map csv_row ?ms)"
    using log_batch_csv [OF new_DataLogger_csv, of ?ms] by simp
  have h: "hour 28800000000 = 8" "hour 43200000000 = 12"
    by (simp_all add: hour_def)
  have pk: "is_peak_hour (peak_hours MONITORING_CONFIG) (hour 28800000000) = Inr True"
    by (simp add: is_peak_hour_MONITORING_CONFIG h)
  have p3: "spec_peak_hour_sinr (map csv_row ?ms) ''B3'' = 5"
    by (simp add: spec_peak_hour_sinr_def csv_row_def sample_def h np_mean_def)
  have p7: "spec_peak_hour_sinr (map csv_row ?ms) ''B7'' = 10"
    by (simp add: spec_peak_hour_sinr_def csv_row_def sample_def h np_mean_def)
  have r: "read_band_column example_pandas [''B3'', ''B3'', ''B7'', ''B7''] ''B3'' = Some (Text ''B3'')"
    "read_band_column example_pandas [''B3'', ''B3'', ''B7'', ''B7''] ''B7'' = Some (Text ''B7'')"
    by (simp_all add: example_pandas_fields text_reader_B3_B7)
  have ta: "to_datetime_accepts example_pandas [28800000000, 43200000000, 28800000000, 43200000000]"
    by (simp add: example_pandas_fields one_format_def)
  have "optimize_for_peak_hours MONITORING_CONFIG example_pandas ?st 28800000000
          (Some (sample 28800000000 ''B3'' 5 (-85))) = []"
    by (rule peak_selection_any_reader [OF r ta])
  with c pk p3 p7 show ?thesis by blast
qed

end
